theory Spec2Isabelle
  imports Main "HOL-Library.AList"
begin

section \<open>JavaScript values\<close>

text \<open>
  The handlers and the GraphQL client work on plain JSON-like values: the tool arguments,
  the variables bound to a backend operation, and the data returned by the backend.
  An object is an association list of property names and values, in insertion order;
  a property that is missing reads as \<open>JUndefined\<close>.
  A number \<open>JNum n\<close> is the integer \<open>n\<close>; it stands for a JavaScript number when
  its magnitude is at most 2^53 - 1 (\<open>maxSafe\<close> below), and numbers with a fractional
  part are not among the values. \<open>JNum 0\<close> stands for both zeros of JavaScript, which
  nothing in this code tells apart (they print, compare and serialise alike). Strings
  are sequences of code units below 256.
\<close>

datatype json =
    JUndefined
  | JNull
  | JBool bool
  | JNum int
  | JStr string
  | JArr "json list"
  | JObj "(string \<times> json) list"

type_synonym object = "(string \<times> json) list"

text \<open>\<open>obj.k\<close> on an object: the value stored under \<open>k\<close>, or \<open>undefined\<close>.\<close>

definition property :: "object \<Rightarrow> string \<Rightarrow> json" where
  "property obj k = (case map_of obj k of None \<Rightarrow> JUndefined | Some v \<Rightarrow> v)"

text \<open>Truthiness, as tested by \<open>if (x)\<close>, \<open>!x\<close>, \<open>x || y\<close> and \<open>x ? a : b\<close>.\<close>

fun truthy :: "json \<Rightarrow> bool" where
  "truthy JUndefined = False"
| "truthy JNull = False"
| "truthy (JBool b) = b"
| "truthy (JNum n) = (n \<noteq> 0)"
| "truthy (JStr s) = (s \<noteq> [])"
| "truthy (JArr xs) = True"
| "truthy (JObj kvs) = True"

fun nullish :: "json \<Rightarrow> bool" where
  "nullish JUndefined = True"
| "nullish JNull = True"
| "nullish v = False"

section \<open>Failures\<close>

text \<open>
  What the transport can reject with: an instance of \<open>Error\<close> carrying a message, or any
  other thrown value.
\<close>

datatype rejection = RejectError string | RejectValue json

text \<open>
  What this layer throws: \<open>new Error(message)\<close>, a \<open>TypeError\<close> raised by reading a
  property of \<open>null\<close> or \<open>undefined\<close> or by calling something that is not a function,
  a value thrown by the transport that is not an \<open>Error\<close> and is passed on as it is,
  and the two failures of the base handler (no verified session, a required parameter
  missing).
\<close>

datatype exn =
    Error string
  | TypeError
  | Thrown json
  | AuthError
  | MissingParam string

section \<open>Backend operations\<close>

text \<open>
  A GraphQL document of \<open>mutations.ts\<close>: the operation's name, the variables it declares
  with their types, and the root field it selects.
\<close>

record document =
  operationName :: string
  variableDefinitions :: "(string \<times> string) list"
  rootField :: string

definition CREATE_ISSUE_MUTATION :: document where
  "CREATE_ISSUE_MUTATION = \<lparr>operationName = ''CreateIssue'',
     variableDefinitions = [(''input'', ''IssueCreateInput!'')],
     rootField = ''issueCreate''\<rparr>"

definition CREATE_PROJECT :: document where
  "CREATE_PROJECT = \<lparr>operationName = ''CreateProject'',
     variableDefinitions = [(''input'', ''ProjectCreateInput!'')],
     rootField = ''projectCreate''\<rparr>"

definition CREATE_BATCH_ISSUES :: document where
  "CREATE_BATCH_ISSUES = \<lparr>operationName = ''CreateBatchIssues'',
     variableDefinitions = [(''input'', ''IssueBatchCreateInput!'')],
     rootField = ''issueBatchCreate''\<rparr>"

definition UPDATE_ISSUE_MUTATION :: document where
  "UPDATE_ISSUE_MUTATION = \<lparr>operationName = ''UpdateIssue'',
     variableDefinitions = [(''id'', ''String!''), (''input'', ''IssueUpdateInput!'')],
     rootField = ''issueUpdate''\<rparr>"

definition UPDATE_ISSUES_MUTATION :: document where
  "UPDATE_ISSUES_MUTATION = \<lparr>operationName = ''UpdateIssues'',
     variableDefinitions = [(''input'', ''IssueBatchUpdateInput!'')],
     rootField = ''issueBatchUpdate''\<rparr>"

text \<open>The names of the variables a document declares.\<close>

definition declaredVariables :: "document \<Rightarrow> string list" where
  "declaredVariables doc = map fst (variableDefinitions doc)"

section \<open>The transport and the client's \<open>execute\<close>\<close>

text \<open>
  The transport (\<open>linearClient.client.rawRequest\<close>) is an external collaborator: given
  its own state, a document and the bound variables it either resolves with the data of
  the response or rejects, and moves to a new state. The client's state pairs the
  transport's state with the log of the requests issued so far.
\<close>

type_synonym request = "document \<times> json"

type_synonym 'w transport = "'w \<Rightarrow> document \<Rightarrow> json \<Rightarrow> (rejection + json) \<times> 'w"

type_synonym 'w state = "request list \<times> 'w"

text \<open>
  \<open>execute\<close>: one request to the transport. A rejection with an \<open>Error\<close> is thrown again
  as a new \<open>Error\<close> whose message has the prefix \<open>GraphQL operation failed: \<close>; any other
  thrown value is passed on.
\<close>

definition execute :: "'w transport \<Rightarrow> document \<Rightarrow> json \<Rightarrow> 'w state \<Rightarrow> (exn + json) \<times> 'w state" where
  "execute T doc variables st =
     (case T (snd st) doc variables of
        (Inr data, w') \<Rightarrow> (Inr data, (fst st @ [(doc, variables)], w'))
      | (Inl (RejectError m), w') \<Rightarrow>
          (Inl (Error (''GraphQL operation failed: '' @ m)), (fst st @ [(doc, variables)], w'))
      | (Inl (RejectValue v), w') \<Rightarrow>
          (Inl (Thrown v), (fst st @ [(doc, variables)], w')))"

text \<open>
  A scripted transport, in the manner of the test suite's mock of \<open>rawRequest\<close>: its state
  is the queue of outcomes still to be handed out, one per request, whatever the request;
  with the queue empty it resolves with no data.
\<close>

definition scripted :: "(rejection + json) list transport" where
  "scripted q doc variables = (case q of [] \<Rightarrow> (Inr JUndefined, []) | r # rs \<Rightarrow> (r, rs))"

section \<open>Sequencing of steps that may throw\<close>

definition bindE :: "'e + 'a \<Rightarrow> ('a \<Rightarrow> 'e + 'b) \<Rightarrow> 'e + 'b" where
  "bindE r f = (case r of Inl e \<Rightarrow> Inl e | Inr v \<Rightarrow> f v)"

fun mapE :: "('a \<Rightarrow> 'e + 'b) \<Rightarrow> 'a list \<Rightarrow> 'e + 'b list" where
  "mapE f [] = Inr []"
| "mapE f (x # xs) =
     (case f x of
        Inl e \<Rightarrow> Inl e
      | Inr y \<Rightarrow> (case mapE f xs of Inl e \<Rightarrow> Inl e | Inr ys \<Rightarrow> Inr (y # ys)))"

definition succeeded :: "'e + 'a \<Rightarrow> bool" where
  "succeeded r = (case r of Inl e \<Rightarrow> False | Inr v \<Rightarrow> True)"

section \<open>Strings and numbers\<close>

text \<open>
  \<open>Number.MAX_SAFE_INTEGER\<close>, 2^53 - 1: up to this magnitude every integer is a
  JavaScript number of its own, printed by \<open>String\<close> as its plain decimal numeral and
  returned by \<open>parseInt\<close> without rounding. \<open>safeNumbers v\<close>: every number that
  \<open>String(v)\<close> prints is within that magnitude (the contents of an object are never
  printed).
\<close>

definition maxSafe :: int where
  "maxSafe = 9007199254740991"

fun safeNumbers :: "json \<Rightarrow> bool" where
  "safeNumbers (JNum n) = (\<bar>n\<bar> \<le> maxSafe)"
| "safeNumbers (JArr xs) = (\<forall>x \<in> set xs. safeNumbers x)"
| "safeNumbers v = True"

fun natToString :: "nat \<Rightarrow> string" where
  "natToString n =
     (if n < 10 then [''0123456789'' ! n]
      else natToString (n div 10) @ [''0123456789'' ! (n mod 10)])"

declare natToString.simps [simp del]

definition intToString :: "int \<Rightarrow> string" where
  "intToString n = (if n < 0 then CHR ''-'' # natToString (nat (- n)) else natToString (nat n))"

text \<open>
  \<open>String(v)\<close>, also the conversion of \<open>${v}\<close> in a template literal. An object that
  has a property of its own named \<open>toString\<close> cannot be converted: a JSON value is never
  callable, and the inherited \<open>valueOf\<close> returns the object, so a \<open>TypeError\<close> is thrown.
  Any other object is \<open>[object Object]\<close>. An array is the comma-separated join of its
  elements, converted from left to right, \<open>null\<close> and \<open>undefined\<close> elements giving the
  empty string. A number is printed as its plain decimal numeral, which is what
  JavaScript prints up to \<open>maxSafe\<close>; beyond that magnitude it is not, and the
  conversions of the arguments in \<open>processedArgs\<close> are guarded by \<open>safeNumbers\<close>.
\<close>

fun toString :: "json \<Rightarrow> exn + string"
  and joinElements :: "json list \<Rightarrow> exn + string" where
  "toString JUndefined = Inr ''undefined''"
| "toString JNull = Inr ''null''"
| "toString (JBool b) = Inr (if b then ''true'' else ''false'')"
| "toString (JNum n) = Inr (intToString n)"
| "toString (JStr s) = Inr s"
| "toString (JArr xs) = joinElements xs"
| "toString (JObj kvs) =
     (if map_of kvs ''toString'' \<noteq> None then Inl TypeError else Inr ''[object Object]'')"
| "joinElements [] = Inr []"
| "joinElements (x # xs) =
     (case (if nullish x then Inr [] else toString x) of
        Inl e \<Rightarrow> Inl e
      | Inr s \<Rightarrow>
          (case joinElements xs of
             Inl e \<Rightarrow> Inl e
           | Inr r \<Rightarrow> Inr (if xs = [] then s else s @ '','' @ r)))"

definition isDigit :: "char \<Rightarrow> bool" where
  "isDigit c = (c \<in> set ''0123456789'')"

definition isUpper :: "char \<Rightarrow> bool" where
  "isUpper c = (c \<in> set ''ABCDEFGHIJKLMNOPQRSTUVWXYZ'')"

text \<open>
  The white space that \<open>parseInt\<close> skips, among the code units below 256: tab, line
  feed, vertical tab, form feed, carriage return, space and no-break space.
\<close>

definition isWhiteSpace :: "char \<Rightarrow> bool" where
  "isWhiteSpace c =
     (c \<in> {CHR 0x09, CHR 0x0A, CHR 0x0B, CHR 0x0C, CHR 0x0D, CHR '' '', CHR 0xA0})"

definition digitValue :: "char \<Rightarrow> int" where
  "digitValue c = of_char c - 48"

definition decimalValue :: "string \<Rightarrow> int" where
  "decimalValue ds = foldl (\<lambda>acc c. 10 * acc + digitValue c) 0 ds"

text \<open>
  \<open>parseInt(s, 10)\<close>: leading white space is skipped, one sign is read, then the longest
  run of decimal digits; whatever follows the digits is ignored. With no digit the result
  is \<open>NaN\<close>, here \<open>None\<close>. The value given is the integer the digits denote. JavaScript
  returns the number nearest to it, which is that integer up to \<open>maxSafe\<close>; every
  statement that depends on the value beyond a comparison with 0 and 4 carries that
  bound.
\<close>

definition parseInt :: "string \<Rightarrow> int option" where
  "parseInt s =
     (let t = dropWhile isWhiteSpace s;
          sign = (if t \<noteq> [] \<and> hd t = CHR ''-'' then - 1 else 1);
          u = (if t \<noteq> [] \<and> (hd t = CHR ''+'' \<or> hd t = CHR ''-'') then tl t else t);
          z = takeWhile isDigit u
      in if z = [] then None else Some (sign * decimalValue z))"

section \<open>Reading properties\<close>

text \<open>
  \<open>v.k\<close> for a value that is neither \<open>null\<close> nor \<open>undefined\<close>, for the property names
  this code reads (none of them is inherited from a prototype but \<open>length\<close>).
\<close>

fun member :: "json \<Rightarrow> string \<Rightarrow> json" where
  "member (JObj kvs) k = property kvs k"
| "member (JArr xs) k = (if k = ''length'' then JNum (int (length xs)) else JUndefined)"
| "member (JStr s) k = (if k = ''length'' then JNum (int (length s)) else JUndefined)"
| "member v k = JUndefined"

text \<open>\<open>v.k\<close>: a \<open>TypeError\<close> when \<open>v\<close> is \<open>null\<close> or \<open>undefined\<close>.\<close>

definition getProp :: "json \<Rightarrow> string \<Rightarrow> exn + json" where
  "getProp v k = (if nullish v then Inl TypeError else Inr (member v k))"

text \<open>\<open>v?.k\<close>: \<open>undefined\<close> when \<open>v\<close> is \<open>null\<close> or \<open>undefined\<close>.\<close>

definition optProp :: "json \<Rightarrow> string \<Rightarrow> json" where
  "optProp v k = (if nullish v then JUndefined else member v k)"

text \<open>\<open>a || b\<close>.\<close>

definition orElse :: "json \<Rightarrow> json \<Rightarrow> json" where
  "orElse a b = (if truthy a then a else b)"

text \<open>A parameter with a default value: the default replaces \<open>undefined\<close> only.\<close>

definition withDefault :: "json \<Rightarrow> json \<Rightarrow> json" where
  "withDefault v d = (if v = JUndefined then d else v)"

section \<open>The GraphQL client\<close>

definition createIssue :: "'w transport \<Rightarrow> json \<Rightarrow> 'w state \<Rightarrow> (exn + json) \<times> 'w state" where
  "createIssue T input st = execute T CREATE_ISSUE_MUTATION (JObj [(''input'', input)]) st"

definition createProject :: "'w transport \<Rightarrow> json \<Rightarrow> 'w state \<Rightarrow> (exn + json) \<times> 'w state" where
  "createProject T input st = execute T CREATE_PROJECT (JObj [(''input'', input)]) st"

definition createBatchIssues :: "'w transport \<Rightarrow> json list \<Rightarrow> 'w state \<Rightarrow> (exn + json) \<times> 'w state" where
  "createBatchIssues T issues st =
     execute T CREATE_BATCH_ISSUES (JObj [(''input'', JObj [(''issues'', JArr issues)])]) st"

definition updateIssue :: "'w transport \<Rightarrow> json \<Rightarrow> json \<Rightarrow> 'w state \<Rightarrow> (exn + json) \<times> 'w state" where
  "updateIssue T ident input st =
     execute T UPDATE_ISSUE_MUTATION (JObj [(''id'', ident), (''input'', input)]) st"

definition updateIssues :: "'w transport \<Rightarrow> json \<Rightarrow> json \<Rightarrow> 'w state \<Rightarrow> (exn + json) \<times> 'w state" where
  "updateIssues T ids input st =
     execute T UPDATE_ISSUES_MUTATION (JObj [(''ids'', ids), (''input'', input)]) st"

text \<open>
  \<open>searchIssues\<close>. The query document lives in \<open>queries.ts\<close>, which is not among the
  sources, so it is a parameter.
\<close>

definition searchIssues ::
  "'w transport \<Rightarrow> document \<Rightarrow> json \<Rightarrow> json \<Rightarrow> json \<Rightarrow> json \<Rightarrow> 'w state \<Rightarrow> (exn + json) \<times> 'w state" where
  "searchIssues T SEARCH_ISSUES_QUERY filter' first after orderBy st =
     execute T SEARCH_ISSUES_QUERY
       (JObj [(''filter'', filter'),
              (''first'', withDefault first (JNum 50)),
              (''after'', after),
              (''orderBy'', withDefault orderBy (JStr ''updatedAt''))]) st"

text \<open>
  \<open>createProjectWithIssues\<close>: the project first; then, unless that reported failure, the
  issues, each a copy of the given issue with \<open>projectId\<close> set to the new project's id.
  The callback of \<open>issues.map\<close> reads \<open>projectResult.projectCreate.project.id\<close> once per
  issue, so a missing project throws there only when there is an issue to copy.
\<close>

definition withProjectId :: "json \<Rightarrow> object \<Rightarrow> exn + json" where
  "withProjectId projectResult issue =
     bindE (getProp projectResult ''projectCreate'') (\<lambda>pc.
     bindE (getProp pc ''project'') (\<lambda>p.
     bindE (getProp p ''id'') (\<lambda>i.
       Inr (JObj (AList.update ''projectId'' i issue)))))"

definition createProjectWithIssues ::
  "'w transport \<Rightarrow> json \<Rightarrow> object list \<Rightarrow> 'w state \<Rightarrow> (exn + json) \<times> 'w state" where
  "createProjectWithIssues T projectInput issues st =
     (case createProject T projectInput st of
        (Inl e, st1) \<Rightarrow> (Inl e, st1)
      | (Inr projectResult, st1) \<Rightarrow>
          (case bindE (getProp projectResult ''projectCreate'') (\<lambda>pc. getProp pc ''success'') of
             Inl e \<Rightarrow> (Inl e, st1)
           | Inr success \<Rightarrow>
               if \<not> truthy success then (Inl (Error ''Failed to create project''), st1)
               else
                 (case mapE (withProjectId projectResult) issues of
                    Inl e \<Rightarrow> (Inl e, st1)
                  | Inr issuesWithProject \<Rightarrow>
                      (case createBatchIssues T issuesWithProject st1 of
                         (Inl e, st2) \<Rightarrow> (Inl e, st2)
                       | (Inr issuesResult, st2) \<Rightarrow>
                           (case bindE (getProp issuesResult ''issueBatchCreate'')
                                   (\<lambda>bc. getProp bc ''success'') of
                              Inl e \<Rightarrow> (Inl e, st2)
                            | Inr success2 \<Rightarrow>
                                if \<not> truthy success2
                                then (Inl (Error ''Failed to create issues''), st2)
                                else (Inr (JObj
                                       [(''projectCreate'', member projectResult ''projectCreate''),
                                        (''issueBatchCreate'', member issuesResult ''issueBatchCreate'')]),
                                      st2))))))"

section \<open>The base handler\<close>

text \<open>
  Modelled from the spec: \<open>BaseHandler\<close> (\<open>core/handlers/base.handler.ts\<close>) is not among
  the sources. The spec, section 1: authentication is a capability that exposes "verify
  current session, produce a request-capable session handle, fail with AuthError
  otherwise". Whether the session verifies is the parameter \<open>authed\<close>.
\<close>

definition verifyAuth :: "bool \<Rightarrow> exn + unit" where
  "verifyAuth authed = (if authed then Inr () else Inl AuthError)"

text \<open>
  Modelled from the spec: \<open>validateRequiredParams\<close> of the missing \<open>BaseHandler\<close>. The
  spec, section 7: a validation failure is raised when "a required field is absent",
  before any backend call. The names are checked in the order given.
\<close>

fun validateRequiredParams :: "object \<Rightarrow> string list \<Rightarrow> exn + unit" where
  "validateRequiredParams args [] = Inr ()"
| "validateRequiredParams args (p # ps) =
     (if property args p = JUndefined then Inl (MissingParam p)
      else validateRequiredParams args ps)"

text \<open>
  Modelled from the spec: \<open>handleError\<close> of the missing \<open>BaseHandler\<close>. The spec,
  sections 4.5 and 7: the failure surfaced to the caller names the attempted action; the
  model keeps the action and what was caught.
\<close>

record failure =
  action :: string
  cause :: exn

definition handleError :: "exn \<Rightarrow> string \<Rightarrow> failure" where
  "handleError e operation = \<lparr>action = operation, cause = e\<rparr>"

text \<open>
  Modelled from the spec: \<open>createResponse\<close> and \<open>createJsonResponse\<close> of the missing
  \<open>BaseHandler\<close>; presentation is out of the spec's scope, so a response is the text or
  the value it was made from.
\<close>

datatype toolResponse = TextResponse string | JsonResponse json

definition createResponse :: "string \<Rightarrow> toolResponse" where
  "createResponse text = TextResponse text"

definition createJsonResponse :: "json \<Rightarrow> toolResponse" where
  "createJsonResponse v = JsonResponse v"

section \<open>The issue handler\<close>

subsection \<open>\<open>handleCreateIssue\<close>\<close>

text \<open>
  \<open>parseInt(String(v), 10)\<close>, the coercion applied to \<open>estimate\<close> and to \<open>priority\<close>:
  the conversion to a string may throw, and the parse may give \<open>NaN\<close> (\<open>None\<close>). Where
  \<open>v\<close> holds a number beyond \<open>maxSafe\<close> the model has no answer: the outer \<open>None\<close>.
\<close>

definition coerceInt :: "json \<Rightarrow> (exn + int option) option" where
  "coerceInt v =
     (if safeNumbers v then Some (bindE (toString v) (\<lambda>s. Inr (parseInt s))) else None)"

text \<open>
  The first block: \<open>estimate\<close>, when present, is replaced by its coercion, and deleted
  when that is \<open>NaN\<close>. An estimate parsed beyond \<open>maxSafe\<close> is stored by the code as the
  nearest number, which the model does not compute (\<open>None\<close>).
\<close>

definition coerceEstimate :: "object \<Rightarrow> (exn + object) option" where
  "coerceEstimate args =
     (if property args ''estimate'' \<noteq> JUndefined then
        (case coerceInt (property args ''estimate'') of
           None \<Rightarrow> None
         | Some (Inl e) \<Rightarrow> Some (Inl e)
         | Some (Inr None) \<Rightarrow> Some (Inr (AList.delete ''estimate'' args))
         | Some (Inr (Some n)) \<Rightarrow>
             if \<bar>n\<bar> \<le> maxSafe then Some (Inr (AList.update ''estimate'' (JNum n) args))
             else None)
      else Some (Inr args))"





subsection \<open>\<open>handleBulkUpdateIssues\<close>\<close>

definition handleBulkUpdateIssues ::
  "'w transport \<Rightarrow> bool \<Rightarrow> object \<Rightarrow> 'w state \<Rightarrow> (failure + toolResponse) \<times> 'w state" where
  "handleBulkUpdateIssues T authed args st =
     (case bindE (verifyAuth authed)
             (\<lambda>_. validateRequiredParams args [''issueIds'', ''update'']) of
        Inl e \<Rightarrow> (Inl (handleError e ''update issues''), st)
      | Inr _ \<Rightarrow>
          (case property args ''issueIds'' of
             JArr issueIds \<Rightarrow>
               if length issueIds = 1 then
                 (case updateIssue T (issueIds ! 0) (property args ''update'') st of
                    (Inl e, st') \<Rightarrow> (Inl (handleError e ''update issues''), st')
                  | (Inr result, st') \<Rightarrow>
                      (case getProp result ''issueUpdate'' of
                         Inl e \<Rightarrow> (Inl (handleError e ''update issues''), st')
                       | Inr iu \<Rightarrow>
                           if \<not> truthy (optProp iu ''success'')
                           then (Inl (handleError (Error ''Failed to update issue'') ''update issues''), st')
                           else (Inr (createResponse ''Successfully updated issue''), st')))
               else
                 (case updateIssues T (JArr issueIds) (property args ''update'') st of
                    (Inl e, st') \<Rightarrow> (Inl (handleError e ''update issues''), st')
                  | (Inr result, st') \<Rightarrow>
                      (case getProp result ''issueBatchUpdate'' of
                         Inl e \<Rightarrow> (Inl (handleError e ''update issues''), st')
                       | Inr ibu \<Rightarrow>
                           if \<not> truthy (optProp ibu ''success'')
                           then (Inl (handleError (Error ''Failed to update issues'') ''update issues''), st')
                           else
                             (case bindE (getProp ibu ''issues'') (\<lambda>is.
                                   bindE (getProp is ''length'') toString) of
                                Inl e \<Rightarrow> (Inl (handleError e ''update issues''), st')
                              | Inr updatedCount \<Rightarrow>
                                  (Inr (createResponse
                                     (''Successfully updated '' @ updatedCount @ '' issues'')),
                                   st'))))
           | _ \<Rightarrow>
               (Inl (handleError (Error ''IssueIds parameter must be an array'') ''update issues''), st)))"

subsection \<open>\<open>handleSearchIssues\<close>\<close>

text \<open>
  \<open>extractIssueNumber\<close>: the query is matched against \<open>/^[A-Z]+-(\d+)$/\<close>. The run of
  capital letters is the longest one, since the hyphen that must follow is not a capital
  letter; the digits must reach the end of the string. The number is
  the one \<open>parseInt\<close> gives for the digits, with the same bound on what is stated
  about it.
\<close>

definition extractIssueNumber :: "string \<Rightarrow> int option" where
  "extractIssueNumber query =
     (let letters = takeWhile isUpper query; rest = dropWhile isUpper query
      in if letters \<noteq> [] \<and> rest \<noteq> [] \<and> hd rest = CHR ''-'' \<and>
            tl rest \<noteq> [] \<and> list_all isDigit (tl rest)
         then parseInt (tl rest)
         else None)"

text \<open>
  The filter built by \<open>handleSearchIssues\<close>, key by key. \<open>args.query.match\<close> is a function
  only when the query is a string.
\<close>

definition queryFilter :: "json \<Rightarrow> exn + json" where
  "queryFilter query =
     (case query of
        JStr q \<Rightarrow>
          Inr (JArr [JObj [(''title'', JObj [(''containsIgnoreCase'', JStr q)])],
                     JObj [(''number'', JObj [(''eq'',
                        (case extractIssueNumber q of None \<Rightarrow> JNull | Some n \<Rightarrow> JNum n))])]])
      | _ \<Rightarrow> Inl TypeError)"

definition projectEq :: "object \<Rightarrow> json" where
  "projectEq args = optProp (optProp (optProp (property args ''filter'') ''project'') ''id'') ''eq''"

definition assembleFilter :: "object \<Rightarrow> exn + object" where
  "assembleFilter args =
     bindE (if truthy (property args ''query'')
            then bindE (queryFilter (property args ''query'')) (\<lambda>disj. Inr (AList.update ''or'' disj []))
            else Inr []) (\<lambda>f1.
     Inr (let f2 = (if truthy (projectEq args)
                then AList.update ''project'' (JObj [(''id'', JObj [(''eq'', projectEq args)])]) f1
                else f1);
          f3 = (if truthy (property args ''teamIds'')
                then AList.update ''team'' (JObj [(''id'', JObj [(''in'', property args ''teamIds'')])]) f2
                else f2);
          f4 = (if truthy (property args ''assigneeIds'')
                then AList.update ''assignee'' (JObj [(''id'', JObj [(''in'', property args ''assigneeIds'')])]) f3
                else f3);
          f5 = (if truthy (property args ''states'')
                then AList.update ''state'' (JObj [(''name'', JObj [(''in'', property args ''states'')])]) f4
                else f4);
          f6 = (case property args ''priority'' of
                  JNum n \<Rightarrow> AList.update ''priority'' (JObj [(''eq'', JNum n)]) f5
                | _ \<Rightarrow> f5)
      in f6))"

definition handleSearchIssues ::
  "'w transport \<Rightarrow> document \<Rightarrow> bool \<Rightarrow> object \<Rightarrow> 'w state \<Rightarrow> (failure + toolResponse) \<times> 'w state" where
  "handleSearchIssues T SEARCH_ISSUES_QUERY authed args st =
     (case bindE (verifyAuth authed) (\<lambda>_. assembleFilter args) of
        Inl e \<Rightarrow> (Inl (handleError e ''search issues''), st)
      | Inr filter' \<Rightarrow>
          (case searchIssues T SEARCH_ISSUES_QUERY (JObj filter')
                  (orElse (property args ''first'') (JNum 50))
                  (property args ''after'')
                  (orElse (property args ''orderBy'') (JStr ''updatedAt'')) st of
             (Inl e, st') \<Rightarrow> (Inl (handleError e ''search issues''), st')
           | (Inr result, st') \<Rightarrow> (Inr (createJsonResponse result), st')))"

section \<open>The spec's reading of the identifier pattern\<close>

text \<open>
  The spec, section 4.2, describes the pattern as \<open><letters>-<digits>\<close>: some letters, a
  hyphen, some digits. \<open>spec_identifier_pattern q ls ds\<close> says that \<open>q\<close> splits so.
\<close>

definition isLetter :: "char \<Rightarrow> bool" where
  "isLetter c = (c \<in> set ''ABCDEFGHIJKLMNOPQRSTUVWXYZabcdefghijklmnopqrstuvwxyz'')"

definition spec_identifier_pattern :: "string \<Rightarrow> string \<Rightarrow> string \<Rightarrow> bool" where
  "spec_identifier_pattern q ls ds =
     (q = ls @ ''-'' @ ds \<and> ls \<noteq> [] \<and> list_all isLetter ls \<and> ds \<noteq> [] \<and> list_all isDigit ds)"

text \<open>The pattern of the code: the letters are capital letters.\<close>

definition identifier_pattern :: "string \<Rightarrow> string \<Rightarrow> string \<Rightarrow> bool" where
  "identifier_pattern q ls ds =
     (q = ls @ ''-'' @ ds \<and> ls \<noteq> [] \<and> list_all isUpper ls \<and> ds \<noteq> [] \<and> list_all isDigit ds)"

section \<open>Notions used in the statements\<close>

text \<open>
  A backend response reports success under the field \<open>f\<close> when it is an object whose \<open>f\<close>
  is an object whose \<open>success\<close> is truthy.
\<close>

definition reportsSuccess :: "json \<Rightarrow> string \<Rightarrow> bool" where
  "reportsSuccess data f =
     (case data of
        JObj kvs \<Rightarrow>
          (case map_of kvs f of
             Some (JObj r) \<Rightarrow> (case map_of r ''success'' of Some v \<Rightarrow> truthy v | None \<Rightarrow> False)
           | _ \<Rightarrow> False)
      | _ \<Rightarrow> False)"

text \<open>The names of the variables a request binds.\<close>

definition boundVariables :: "json \<Rightarrow> string list" where
  "boundVariables variables = (case variables of JObj kvs \<Rightarrow> map fst kvs | _ \<Rightarrow> [])"

section \<open>Basic facts\<close>

subsection \<open>Objects\<close>

lemma property_update:
  "property (AList.update k v obj) k' = (if k' = k then v else property obj k')"
  by (simp add: property_def update_conv')

lemma property_delete:
  "property (AList.delete k obj) k' = (if k' = k then JUndefined else property obj k')"
  by (simp add: property_def delete_conv')

lemma keys_update: "fst ` set (AList.update k v obj) = insert k (fst ` set obj)"
  by (simp add: dom_update)


subsection \<open>Numerals\<close>

lemma digit_not_space: "isDigit c \<Longrightarrow> \<not> isWhiteSpace c"
  by (auto simp: isDigit_def isWhiteSpace_def)

lemma digit_not_sign: "isDigit c \<Longrightarrow> c \<noteq> CHR ''-'' \<and> c \<noteq> CHR ''+''"
  by (auto simp: isDigit_def)

lemma takeWhile_all: "list_all P xs \<Longrightarrow> takeWhile P xs = xs"
  by (induction xs) auto

text \<open>A non-empty string of digits parses to its decimal value.\<close>

lemma parseInt_all_digits:
  assumes "ds \<noteq> []" and "list_all isDigit ds"
  shows "parseInt ds = Some (decimalValue ds)"
proof -
  obtain c cs where ds: "ds = c # cs" using assms(1) by (cases ds) auto
  have c: "isDigit c" using assms(2) ds by simp
  have "dropWhile isWhiteSpace ds = ds" using c ds digit_not_space by simp
  moreover have "takeWhile isDigit ds = ds" using assms(2) by (rule takeWhile_all)
  ultimately show ?thesis
    using digit_not_sign[OF c] assms(1) ds by (simp add: parseInt_def Let_def)
qed




text \<open>
  The coercion fails exactly when, after the leading white space and one sign, the string
  does not go on with a digit.
\<close>

lemma parseInt_None_iff:
  "parseInt s = None \<longleftrightarrow>
     (let t = dropWhile isWhiteSpace s;
          u = (if t \<noteq> [] \<and> (hd t = CHR ''+'' \<or> hd t = CHR ''-'') then tl t else t)
      in u = [] \<or> \<not> isDigit (hd u))"
  by (simp add: parseInt_def Let_def takeWhile_eq_Nil_iff)


subsection \<open>String forms\<close>

text \<open>The only thing the conversion to a string throws is a \<open>TypeError\<close>.\<close>

lemma toString_fails:
  "toString v = Inl e \<Longrightarrow> e = TypeError"
  "joinElements xs = Inl e \<Longrightarrow> e = TypeError"
  by (induction v and xs rule: toString_joinElements.induct)
     (auto split: if_splits sum.splits)

lemmas evals = property_def parseInt_def isWhiteSpace_def isDigit_def decimalValue_def
  digitValue_def intToString_def natToString.simps Let_def

subsection \<open>\<open>execute\<close>\<close>

lemma execute_state:
  "snd (execute T doc variables st) = (fst st @ [(doc, variables)], snd (T (snd st) doc variables))"
  by (simp add: execute_def split: prod.splits sum.splits rejection.splits)

lemma execute_result:
  "fst (execute T doc variables st) =
     (case fst (T (snd st) doc variables) of
        Inr data \<Rightarrow> Inr data
      | Inl (RejectError m) \<Rightarrow> Inl (Error (''GraphQL operation failed: '' @ m))
      | Inl (RejectValue v) \<Rightarrow> Inl (Thrown v))"
  by (simp add: execute_def split: prod.splits sum.splits rejection.splits)

section \<open>Transport failures\<close>

text \<open>
  C4 (as amended). When the transport rejects a request with an \<open>Error\<close> whose message is
  \<open>m\<close>, \<open>execute\<close> throws an \<open>Error\<close> whose message is \<open>GraphQL operation failed: \<close>
  followed by \<open>m\<close>; the request is logged and nothing else is sent.
\<close>

theorem execute_transport_failure:
  assumes "T w doc variables = (Inl (RejectError m), w')"
  shows "execute T doc variables (log, w) =
           (Inl (Error (''GraphQL operation failed: '' @ m)), (log @ [(doc, variables)], w'))"
  using assms by (simp add: execute_def)

theorem execute_transport_failure_witness:
  "execute scripted UPDATE_ISSUES_MUTATION (JObj []) ([], [Inl (RejectError ''Update failed'')]) =
     (Inl (Error ''GraphQL operation failed: Update failed''),
      ([(UPDATE_ISSUES_MUTATION, JObj [])], []))"
  using execute_transport_failure
    [of scripted "[Inl (RejectError ''Update failed'')]" UPDATE_ISSUES_MUTATION "JObj []"
        "''Update failed''" "[]" "[]"]
  by (simp add: scripted_def)

text \<open>
  C4 (as stated) fails: for the message \<open>Update failed\<close> the message thrown is not
  \<open>operation failed: Update failed\<close>.
\<close>

theorem execute_message_counterexample:
  "fst (execute scripted UPDATE_ISSUES_MUTATION (JObj []) ([], [Inl (RejectError ''Update failed'')]))
     \<noteq> Inl (Error (''operation failed: '' @ ''Update failed''))"
  by (simp add: execute_def scripted_def)

section \<open>Normalising the arguments of \<open>handleCreateIssue\<close>\<close>









lemma coerceEstimate_absent:
  "property args ''estimate'' = JUndefined \<Longrightarrow> coerceEstimate args = Some (Inr args)"
  by (simp add: coerceEstimate_def)



















section \<open>Routing of \<open>handleBulkUpdateIssues\<close>\<close>

lemma reportsSuccess_read:
  "truthy (optProp (member data f) ''success'') = reportsSuccess data f"
proof (cases data)
  case (JObj kvs)
  show ?thesis
  proof (cases "map_of kvs f")
    case None
    with JObj show ?thesis by (simp add: reportsSuccess_def optProp_def property_def)
  next
    case (Some v)
    with JObj show ?thesis
      by (cases v) (simp_all add: reportsSuccess_def optProp_def property_def split: option.splits)
  qed
qed (simp_all add: reportsSuccess_def optProp_def)

lemma reportsSuccess_not_nullish: "reportsSuccess data f \<Longrightarrow> \<not> nullish data"
  by (cases data) (simp_all add: reportsSuccess_def)

lemma getProp_chain_fails:
  "bindE (getProp a k) (\<lambda>v. bindE (getProp v k') toString) = Inl e \<Longrightarrow> e = TypeError"
  by (auto simp: bindE_def getProp_def dest: toString_fails split: if_splits sum.splits)

lemma single_update_outcome:
  assumes "property args ''issueIds'' = JArr [i]" and "property args ''update'' \<noteq> JUndefined"
  shows "snd (handleBulkUpdateIssues T True args st) =
           snd (execute T UPDATE_ISSUE_MUTATION (JObj [(''id'', i), (''input'', property args ''update'')]) st)"
    and "fst (T (snd st) UPDATE_ISSUE_MUTATION (JObj [(''id'', i), (''input'', property args ''update'')])) = Inr data
         \<Longrightarrow> fst (handleBulkUpdateIssues T True args st) =
            (if reportsSuccess data ''issueUpdate''
             then Inr (createResponse ''Successfully updated issue'')
             else Inl (handleError (if nullish data then TypeError else Error ''Failed to update issue'')
                         ''update issues''))"
proof -
  have v: "validateRequiredParams args [''issueIds'', ''update''] = Inr ()"
    using assms by simp
  show "snd (handleBulkUpdateIssues T True args st) =
           snd (execute T UPDATE_ISSUE_MUTATION (JObj [(''id'', i), (''input'', property args ''update'')]) st)"
    using assms
    by (simp add: handleBulkUpdateIssues_def verifyAuth_def bindE_def updateIssue_def getProp_def
          split: prod.splits sum.splits)
  assume d: "fst (T (snd st) UPDATE_ISSUE_MUTATION (JObj [(''id'', i), (''input'', property args ''update'')])) = Inr data"
  then have e: "fst (execute T UPDATE_ISSUE_MUTATION (JObj [(''id'', i), (''input'', property args ''update'')]) st) = Inr data"
    by (simp add: execute_result)
  show "fst (handleBulkUpdateIssues T True args st) =
            (if reportsSuccess data ''issueUpdate''
             then Inr (createResponse ''Successfully updated issue'')
             else Inl (handleError (if nullish data then TypeError else Error ''Failed to update issue'')
                         ''update issues''))"
    using assms e reportsSuccess_read[of data "''issueUpdate''"]
    by (auto dest: reportsSuccess_not_nullish simp: handleBulkUpdateIssues_def verifyAuth_def bindE_def updateIssue_def getProp_def
          split: prod.splits sum.splits)
qed

lemma bulk_update_outcome:
  assumes "property args ''issueIds'' = JArr ids" and "length ids \<noteq> 1"
      and "property args ''update'' \<noteq> JUndefined"
  shows "snd (handleBulkUpdateIssues T True args st) =
           snd (execute T UPDATE_ISSUES_MUTATION (JObj [(''ids'', JArr ids), (''input'', property args ''update'')]) st)"
    and "fst (T (snd st) UPDATE_ISSUES_MUTATION (JObj [(''ids'', JArr ids), (''input'', property args ''update'')])) = Inr data
         \<Longrightarrow> fst (handleBulkUpdateIssues T True args st) =
            (if reportsSuccess data ''issueBatchUpdate''
             then (case bindE (getProp (member data ''issueBatchUpdate'') ''issues'')
                          (\<lambda>is. bindE (getProp is ''length'') toString) of
                     Inl e \<Rightarrow> Inl (handleError e ''update issues'')
                   | Inr updatedCount \<Rightarrow>
                       Inr (createResponse (''Successfully updated '' @ updatedCount @ '' issues'')))
             else Inl (handleError (if nullish data then TypeError else Error ''Failed to update issues'')
                         ''update issues''))"
proof -
  show "snd (handleBulkUpdateIssues T True args st) =
           snd (execute T UPDATE_ISSUES_MUTATION (JObj [(''ids'', JArr ids), (''input'', property args ''update'')]) st)"
    using assms
    by (simp add: handleBulkUpdateIssues_def verifyAuth_def bindE_def updateIssues_def getProp_def
          split: prod.splits sum.splits)
  assume "fst (T (snd st) UPDATE_ISSUES_MUTATION (JObj [(''ids'', JArr ids), (''input'', property args ''update'')])) = Inr data"
  then have e: "fst (execute T UPDATE_ISSUES_MUTATION (JObj [(''ids'', JArr ids), (''input'', property args ''update'')]) st) = Inr data"
    by (simp add: execute_result)
  show "fst (handleBulkUpdateIssues T True args st) =
            (if reportsSuccess data ''issueBatchUpdate''
             then (case bindE (getProp (member data ''issueBatchUpdate'') ''issues'')
                          (\<lambda>is. bindE (getProp is ''length'') toString) of
                     Inl e \<Rightarrow> Inl (handleError e ''update issues'')
                   | Inr updatedCount \<Rightarrow>
                       Inr (createResponse (''Successfully updated '' @ updatedCount @ '' issues'')))
             else Inl (handleError (if nullish data then TypeError else Error ''Failed to update issues'')
                         ''update issues''))"
  proof -
    obtain st' where ex: "execute T UPDATE_ISSUES_MUTATION (JObj [(''ids'', JArr ids), (''input'', property args ''update'')]) st = (Inr data, st')"
      using e by (cases "execute T UPDATE_ISSUES_MUTATION (JObj [(''ids'', JArr ids), (''input'', property args ''update'')]) st") auto
    have h: "handleBulkUpdateIssues T True args st =
               (case getProp data ''issueBatchUpdate'' of
                  Inl e \<Rightarrow> (Inl (handleError e ''update issues''), st')
                | Inr ibu \<Rightarrow>
                    if \<not> truthy (optProp ibu ''success'')
                    then (Inl (handleError (Error ''Failed to update issues'') ''update issues''), st')
                    else
                      (case bindE (getProp ibu ''issues'') (\<lambda>is. bindE (getProp is ''length'') toString) of
                         Inl e \<Rightarrow> (Inl (handleError e ''update issues''), st')
                       | Inr updatedCount \<Rightarrow>
                           (Inr (createResponse
                              (''Successfully updated '' @ updatedCount @ '' issues'')),
                            st')))"
      using assms by (simp add: handleBulkUpdateIssues_def verifyAuth_def bindE_def updateIssues_def ex)
    show ?thesis
    proof (cases "nullish data")
      case True
      then show ?thesis
        using reportsSuccess_not_nullish[of data "''issueBatchUpdate''"]
        by (auto simp: h getProp_def)
    next
      case False
      then show ?thesis
        using reportsSuccess_read[of data "''issueBatchUpdate''"]
        by (simp add: h getProp_def split: sum.splits)
    qed
  qed
qed


text \<open>
  C1. \<open>handleBulkUpdateIssues\<close> with a verified session, a non-empty array of
  identifiers and an update payload. With exactly one identifier the only request sent
  is \<open>UpdateIssue\<close>, binding \<open>id\<close> to that identifier, and the outcome is decided by the
  \<open>issueUpdate\<close> field of the response alone. With two or more the only request sent is
  \<open>UpdateIssues\<close>, and success is decided by the \<open>issueBatchUpdate\<close> field: the handler
  succeeds only if that field reports success, and fails with \<open>Failed to update issues\<close>
  when it does not. Which field is read follows from the branch, whatever else the
  response carries.
\<close>

theorem bulk_update_routing:
  assumes ids: "property args ''issueIds'' = JArr ids" and ne: "ids \<noteq> []"
      and upd: "property args ''update'' \<noteq> JUndefined"
      and single: "single = JObj [(''id'', hd ids), (''input'', property args ''update'')]"
      and bulk: "bulk = JObj [(''ids'', JArr ids), (''input'', property args ''update'')]"
  shows
   "(length ids = 1 \<longrightarrow>
       snd (handleBulkUpdateIssues T True args (log, w)) =
         (log @ [(UPDATE_ISSUE_MUTATION, single)], snd (T w UPDATE_ISSUE_MUTATION single))
     \<and> (\<forall>data. fst (T w UPDATE_ISSUE_MUTATION single) = Inr data \<longrightarrow>
          (reportsSuccess data ''issueUpdate'' \<longrightarrow>
             fst (handleBulkUpdateIssues T True args (log, w)) =
               Inr (createResponse ''Successfully updated issue''))
        \<and> (\<not> reportsSuccess data ''issueUpdate'' \<longrightarrow>
             fst (handleBulkUpdateIssues T True args (log, w)) =
               Inl (handleError (if nullish data then TypeError else Error ''Failed to update issue'')
                      ''update issues''))))
  \<and> (2 \<le> length ids \<longrightarrow>
       snd (handleBulkUpdateIssues T True args (log, w)) =
         (log @ [(UPDATE_ISSUES_MUTATION, bulk)], snd (T w UPDATE_ISSUES_MUTATION bulk))
     \<and> (\<forall>data. fst (T w UPDATE_ISSUES_MUTATION bulk) = Inr data \<longrightarrow>
          (succeeded (fst (handleBulkUpdateIssues T True args (log, w))) \<longrightarrow>
             reportsSuccess data ''issueBatchUpdate'')
        \<and> (\<forall>xs. reportsSuccess data ''issueBatchUpdate'' \<and>
                 member (member data ''issueBatchUpdate'') ''issues'' = JArr xs \<longrightarrow>
             fst (handleBulkUpdateIssues T True args (log, w)) =
               Inr (createResponse (''Successfully updated '' @ natToString (length xs) @ '' issues'')))
        \<and> (\<not> reportsSuccess data ''issueBatchUpdate'' \<longrightarrow>
             fst (handleBulkUpdateIssues T True args (log, w)) =
               Inl (handleError (if nullish data then TypeError else Error ''Failed to update issues'')
                      ''update issues''))))"
proof (intro conjI impI allI)
  assume one: "length ids = 1"
  then have i: "property args ''issueIds'' = JArr [hd ids]"
    using ids by (cases ids) auto
  show "snd (handleBulkUpdateIssues T True args (log, w)) =
         (log @ [(UPDATE_ISSUE_MUTATION, single)], snd (T w UPDATE_ISSUE_MUTATION single))"
    using single_update_outcome(1)[OF i upd, of T "(log, w)"] by (simp add: single execute_state)
  fix data
  assume d: "fst (T w UPDATE_ISSUE_MUTATION single) = Inr data"
  {
    assume "reportsSuccess data ''issueUpdate''"
    then show "fst (handleBulkUpdateIssues T True args (log, w)) =
               Inr (createResponse ''Successfully updated issue'')"
      using single_update_outcome(2)[OF i upd, of T "(log, w)" data] d by (simp add: single)
  }
  {
    assume "\<not> reportsSuccess data ''issueUpdate''"
    then show "fst (handleBulkUpdateIssues T True args (log, w)) =
               Inl (handleError (if nullish data then TypeError else Error ''Failed to update issue'')
                      ''update issues'')"
      using single_update_outcome(2)[OF i upd, of T "(log, w)" data] d by (simp add: single)
  }
next
  assume two: "2 \<le> length ids"
  then have n1: "length ids \<noteq> 1" by simp
  show "snd (handleBulkUpdateIssues T True args (log, w)) =
         (log @ [(UPDATE_ISSUES_MUTATION, bulk)], snd (T w UPDATE_ISSUES_MUTATION bulk))"
    using bulk_update_outcome(1)[OF ids n1 upd, of T "(log, w)"] by (simp add: bulk execute_state)
  fix data
  assume d: "fst (T w UPDATE_ISSUES_MUTATION bulk) = Inr data"
  note out = bulk_update_outcome(2)[OF ids n1 upd, of T "(log, w)" data]
  {
    assume "succeeded (fst (handleBulkUpdateIssues T True args (log, w)))"
    then show "reportsSuccess data ''issueBatchUpdate''"
      using out d by (auto simp: bulk succeeded_def split: if_splits)
  }
  {
    fix xs
    assume "reportsSuccess data ''issueBatchUpdate'' \<and>
                 member (member data ''issueBatchUpdate'') ''issues'' = JArr xs"
    then show "fst (handleBulkUpdateIssues T True args (log, w)) =
               Inr (createResponse (''Successfully updated '' @ natToString (length xs) @ '' issues''))"
      using out d
      by (cases "member data ''issueBatchUpdate''")
         (simp_all add: bulk bindE_def getProp_def intToString_def)
  }
  {
    assume "\<not> reportsSuccess data ''issueBatchUpdate''"
    then show "fst (handleBulkUpdateIssues T True args (log, w)) =
               Inl (handleError (if nullish data then TypeError else Error ''Failed to update issues'')
                      ''update issues'')"
      using out d by (simp add: bulk)
  }
qed

theorem bulk_update_routing_witness:
  "handleBulkUpdateIssues scripted True
      [(''issueIds'', JArr [JStr ''issue-1'']), (''update'', JObj [(''stateId'', JStr ''state-2'')])]
      ([], [Inr (JObj [(''issueUpdate'', JObj [(''success'', JBool True)])])])
    = (Inr (createResponse ''Successfully updated issue''),
       ([(UPDATE_ISSUE_MUTATION,
          JObj [(''id'', JStr ''issue-1''), (''input'', JObj [(''stateId'', JStr ''state-2'')])])], []))
   \<and> fst (handleBulkUpdateIssues scripted True
      [(''issueIds'', JArr [JStr ''issue-1'']), (''update'', JObj [(''stateId'', JStr ''state-2'')])]
      ([], [Inr (JObj [(''issueBatchUpdate'', JObj [(''success'', JBool True), (''issues'', JArr [])])])]))
    = Inl (handleError (Error ''Failed to update issue'') ''update issues'')
   \<and> handleBulkUpdateIssues scripted True
      [(''issueIds'', JArr [JStr ''issue-1'', JStr ''issue-2'']), (''update'', JObj [(''stateId'', JStr ''state-2'')])]
      ([], [Inr (JObj [(''issueBatchUpdate'', JObj [(''success'', JBool True), (''issues'', JArr [JNull, JNull])])])])
    = (Inr (createResponse ''Successfully updated 2 issues''),
       ([(UPDATE_ISSUES_MUTATION,
          JObj [(''ids'', JArr [JStr ''issue-1'', JStr ''issue-2'']),
                (''input'', JObj [(''stateId'', JStr ''state-2'')])])], []))"
proof -
  let ?one = "[(''issueIds'', JArr [JStr ''issue-1'']), (''update'', JObj [(''stateId'', JStr ''state-2'')])]"
  let ?two = "[(''issueIds'', JArr [JStr ''issue-1'', JStr ''issue-2'']), (''update'', JObj [(''stateId'', JStr ''state-2'')])]"
  have a: "property ?one ''issueIds'' = JArr [JStr ''issue-1'']" "[JStr ''issue-1''] \<noteq> []"
          "property ?one ''update'' \<noteq> JUndefined"
    by (simp_all add: property_def)
  have b: "property ?two ''issueIds'' = JArr [JStr ''issue-1'', JStr ''issue-2'']"
          "[JStr ''issue-1'', JStr ''issue-2''] \<noteq> []" "property ?two ''update'' \<noteq> JUndefined"
    by (simp_all add: property_def)
  note r1 = bulk_update_routing[OF a refl refl, where T = scripted and log = "[]"
              and w = "[Inr (JObj [(''issueUpdate'', JObj [(''success'', JBool True)])])]"]
  note r2 = bulk_update_routing[OF a refl refl, where T = scripted and log = "[]"
              and w = "[Inr (JObj [(''issueBatchUpdate'', JObj [(''success'', JBool True), (''issues'', JArr [])])])]"]
  note r3 = bulk_update_routing[OF b refl refl, where T = scripted and log = "[]"
              and w = "[Inr (JObj [(''issueBatchUpdate'', JObj [(''success'', JBool True), (''issues'', JArr [JNull, JNull])])])]"]
  have c1: "handleBulkUpdateIssues scripted True ?one
      ([], [Inr (JObj [(''issueUpdate'', JObj [(''success'', JBool True)])])])
    = (Inr (createResponse ''Successfully updated issue''),
       ([(UPDATE_ISSUE_MUTATION,
          JObj [(''id'', JStr ''issue-1''), (''input'', JObj [(''stateId'', JStr ''state-2'')])])], []))"
    using r1 by (simp add: prod_eq_iff property_def scripted_def reportsSuccess_def)
  have c2: "fst (handleBulkUpdateIssues scripted True ?one
      ([], [Inr (JObj [(''issueBatchUpdate'', JObj [(''success'', JBool True), (''issues'', JArr [])])])]))
    = Inl (handleError (Error ''Failed to update issue'') ''update issues'')"
    using r2 by (simp add: property_def scripted_def reportsSuccess_def)
  have c3: "handleBulkUpdateIssues scripted True ?two
      ([], [Inr (JObj [(''issueBatchUpdate'', JObj [(''success'', JBool True), (''issues'', JArr [JNull, JNull])])])])
    = (Inr (createResponse ''Successfully updated 2 issues''),
       ([(UPDATE_ISSUES_MUTATION,
          JObj [(''ids'', JArr [JStr ''issue-1'', JStr ''issue-2'']),
                (''input'', JObj [(''stateId'', JStr ''state-2'')])])], []))"
    using r3 by (simp add: prod_eq_iff property_def scripted_def reportsSuccess_def natToString.simps)
  show ?thesis using c1 c2 c3 by blast
qed

text \<open>
  C9. \<open>handleBulkUpdateIssues\<close> with an empty array of identifiers: the required-field
  check passes, the outcome is never one of the validation failures, and the request
  sent is \<open>UpdateIssues\<close> with the empty list, its success read from \<open>issueBatchUpdate\<close>;
  \<open>UpdateIssue\<close> is not used.
\<close>

theorem empty_ids_take_bulk_branch:
  assumes ids: "property args ''issueIds'' = JArr []"
      and upd: "property args ''update'' \<noteq> JUndefined"
      and bulk: "bulk = JObj [(''ids'', JArr []), (''input'', property args ''update'')]"
  shows "validateRequiredParams args [''issueIds'', ''update''] = Inr ()
     \<and> snd (handleBulkUpdateIssues T True args (log, w)) =
         (log @ [(UPDATE_ISSUES_MUTATION, bulk)], snd (T w UPDATE_ISSUES_MUTATION bulk))
     \<and> fst (handleBulkUpdateIssues T True args (log, w)) \<noteq>
         Inl (handleError (Error ''IssueIds parameter must be an array'') ''update issues'')
     \<and> (\<forall>p. fst (handleBulkUpdateIssues T True args (log, w)) \<noteq>
         Inl (handleError (MissingParam p) ''update issues''))
     \<and> (\<forall>data. fst (T w UPDATE_ISSUES_MUTATION bulk) = Inr data \<longrightarrow>
          (succeeded (fst (handleBulkUpdateIssues T True args (log, w))) \<longrightarrow>
             reportsSuccess data ''issueBatchUpdate'')
        \<and> (\<forall>xs. reportsSuccess data ''issueBatchUpdate'' \<and>
                 member (member data ''issueBatchUpdate'') ''issues'' = JArr xs \<longrightarrow>
             fst (handleBulkUpdateIssues T True args (log, w)) =
               Inr (createResponse (''Successfully updated '' @ natToString (length xs) @ '' issues'')))
        \<and> (\<not> reportsSuccess data ''issueBatchUpdate'' \<longrightarrow>
             fst (handleBulkUpdateIssues T True args (log, w)) =
               Inl (handleError (if nullish data then TypeError else Error ''Failed to update issues'')
                      ''update issues'')))"
proof -
  have n1: "length ([]::json list) \<noteq> 1" by simp
  have v: "validateRequiredParams args [''issueIds'', ''update''] = Inr ()"
    using ids upd by simp
  have st: "snd (handleBulkUpdateIssues T True args (log, w)) =
         (log @ [(UPDATE_ISSUES_MUTATION, bulk)], snd (T w UPDATE_ISSUES_MUTATION bulk))"
    using bulk_update_outcome(1)[OF ids n1 upd, of T "(log, w)"] by (simp add: bulk execute_state)
  note out = bulk_update_outcome(2)[OF ids n1 upd, of T "(log, w)"]
  have rej: "\<And>r. fst (T w UPDATE_ISSUES_MUTATION bulk) = Inl r \<Longrightarrow>
      fst (handleBulkUpdateIssues T True args (log, w)) =
        Inl (handleError (case r of RejectError m \<Rightarrow> Error (''GraphQL operation failed: '' @ m)
                                  | RejectValue x \<Rightarrow> Thrown x) ''update issues'')"
  proof -
    fix r assume r: "fst (T w UPDATE_ISSUES_MUTATION bulk) = Inl r"
    have "fst (execute T UPDATE_ISSUES_MUTATION bulk (log, w)) =
            Inl (case r of RejectError m \<Rightarrow> Error (''GraphQL operation failed: '' @ m)
                         | RejectValue x \<Rightarrow> Thrown x)"
      using r by (simp add: execute_result split: rejection.splits)
    then obtain st' where "execute T UPDATE_ISSUES_MUTATION bulk (log, w) =
            (Inl (case r of RejectError m \<Rightarrow> Error (''GraphQL operation failed: '' @ m)
                         | RejectValue x \<Rightarrow> Thrown x), st')"
      by (cases "execute T UPDATE_ISSUES_MUTATION bulk (log, w)") auto
    then show "fst (handleBulkUpdateIssues T True args (log, w)) =
        Inl (handleError (case r of RejectError m \<Rightarrow> Error (''GraphQL operation failed: '' @ m)
                                  | RejectValue x \<Rightarrow> Thrown x) ''update issues'')"
      using ids upd
      by (simp add: handleBulkUpdateIssues_def verifyAuth_def bindE_def updateIssues_def bulk)
  qed
  have notval: "fst (handleBulkUpdateIssues T True args (log, w)) \<noteq>
         Inl (handleError (Error ''IssueIds parameter must be an array'') ''update issues'')
     \<and> (\<forall>p. fst (handleBulkUpdateIssues T True args (log, w)) \<noteq>
         Inl (handleError (MissingParam p) ''update issues''))"
  proof (cases "fst (T w UPDATE_ISSUES_MUTATION bulk)")
    case (Inl r)
    show ?thesis
      using rej[OF Inl] by (cases r) (simp_all add: handleError_def)
  next
    case (Inr data)
    show ?thesis
      using out[of data] Inr
      by (auto simp: bulk handleError_def dest: getProp_chain_fails split: if_splits sum.splits)
  qed
  have rd: "\<forall>data. fst (T w UPDATE_ISSUES_MUTATION bulk) = Inr data \<longrightarrow>
          (succeeded (fst (handleBulkUpdateIssues T True args (log, w))) \<longrightarrow>
             reportsSuccess data ''issueBatchUpdate'')
        \<and> (\<forall>xs. reportsSuccess data ''issueBatchUpdate'' \<and>
                 member (member data ''issueBatchUpdate'') ''issues'' = JArr xs \<longrightarrow>
             fst (handleBulkUpdateIssues T True args (log, w)) =
               Inr (createResponse (''Successfully updated '' @ natToString (length xs) @ '' issues'')))
        \<and> (\<not> reportsSuccess data ''issueBatchUpdate'' \<longrightarrow>
             fst (handleBulkUpdateIssues T True args (log, w)) =
               Inl (handleError (if nullish data then TypeError else Error ''Failed to update issues'')
                      ''update issues''))"
  proof (intro allI impI conjI)
    fix data
    assume d: "fst (T w UPDATE_ISSUES_MUTATION bulk) = Inr data"
    {
      assume "succeeded (fst (handleBulkUpdateIssues T True args (log, w)))"
      then show "reportsSuccess data ''issueBatchUpdate''"
        using out[of data] d by (auto simp: bulk succeeded_def split: if_splits)
    }
    {
      fix xs
      assume "reportsSuccess data ''issueBatchUpdate'' \<and>
                 member (member data ''issueBatchUpdate'') ''issues'' = JArr xs"
      then show "fst (handleBulkUpdateIssues T True args (log, w)) =
               Inr (createResponse (''Successfully updated '' @ natToString (length xs) @ '' issues''))"
        using out[of data] d
        by (cases "member data ''issueBatchUpdate''")
           (simp_all add: bulk bindE_def getProp_def intToString_def)
    }
    {
      assume "\<not> reportsSuccess data ''issueBatchUpdate''"
      then show "fst (handleBulkUpdateIssues T True args (log, w)) =
               Inl (handleError (if nullish data then TypeError else Error ''Failed to update issues'')
                      ''update issues'')"
        using out[of data] d by (simp add: bulk)
    }
  qed
  show ?thesis using v st notval rd by blast
qed

theorem empty_ids_take_bulk_branch_witness:
  "handleBulkUpdateIssues scripted True
      [(''issueIds'', JArr []), (''update'', JObj [(''stateId'', JStr ''state-2'')])]
      ([], [Inr (JObj [(''issueBatchUpdate'', JObj [(''success'', JBool True), (''issues'', JArr [])])])])
    = (Inr (createResponse ''Successfully updated 0 issues''),
       ([(UPDATE_ISSUES_MUTATION,
          JObj [(''ids'', JArr []), (''input'', JObj [(''stateId'', JStr ''state-2'')])])], []))"
proof -
  let ?args = "[(''issueIds'', JArr []), (''update'', JObj [(''stateId'', JStr ''state-2'')])]"
  have a: "property ?args ''issueIds'' = JArr []" "property ?args ''update'' \<noteq> JUndefined"
    by (simp_all add: property_def)
  note r = empty_ids_take_bulk_branch[OF a refl, where T = scripted and log = "[]"
             and w = "[Inr (JObj [(''issueBatchUpdate'', JObj [(''success'', JBool True), (''issues'', JArr [])])])]"]
  show ?thesis
    using r by (simp add: prod_eq_iff property_def scripted_def reportsSuccess_def natToString.simps)
qed

section \<open>The composite \<open>createProjectWithIssues\<close>\<close>

lemma mapE_withProjectId:
  assumes "property d ''projectCreate'' = JObj pc" and "property pc ''project'' = JObj p"
  shows "mapE (withProjectId (JObj d)) issues =
           Inr (map (\<lambda>issue. JObj (AList.update ''projectId'' (property p ''id'') issue)) issues)"
  using assms
  by (induction issues) (simp_all add: withProjectId_def bindE_def getProp_def)

lemma projectId_set:
  "list_all (\<lambda>payload. member payload ''projectId'' = pid)
     (map (\<lambda>issue. JObj (AList.update ''projectId'' pid issue)) issues)"
  by (induction issues) (simp_all add: property_update)

lemma project_step_failure:
  assumes "T w CREATE_PROJECT (JObj [(''input'', projectInput)]) = (Inr (JObj d1), w1)"
      and "property d1 ''projectCreate'' = JObj pc"
      and "\<not> truthy (property pc ''success'')"
  shows "createProjectWithIssues T projectInput issues (log, w) =
           (Inl (Error ''Failed to create project''),
            (log @ [(CREATE_PROJECT, JObj [(''input'', projectInput)])], w1))"
  using assms
  by (simp add: createProjectWithIssues_def createProject_def execute_def bindE_def getProp_def)

lemma project_step_success:
  assumes "T w CREATE_PROJECT (JObj [(''input'', projectInput)]) = (Inr (JObj d1), w1)"
      and "property d1 ''projectCreate'' = JObj pc"
      and "truthy (property pc ''success'')"
      and "property pc ''project'' = JObj p"
  shows "createProjectWithIssues T projectInput issues (log, w) =
           (case createBatchIssues T
                   (map (\<lambda>issue. JObj (AList.update ''projectId'' (property p ''id'') issue)) issues)
                   (log @ [(CREATE_PROJECT, JObj [(''input'', projectInput)])], w1) of
              (Inl e, st2) \<Rightarrow> (Inl e, st2)
            | (Inr issuesResult, st2) \<Rightarrow>
                (case bindE (getProp issuesResult ''issueBatchCreate'') (\<lambda>bc. getProp bc ''success'') of
                   Inl e \<Rightarrow> (Inl e, st2)
                 | Inr success2 \<Rightarrow>
                     if \<not> truthy success2
                     then (Inl (Error ''Failed to create issues''), st2)
                     else (Inr (JObj
                            [(''projectCreate'', member (JObj d1) ''projectCreate''),
                             (''issueBatchCreate'', member issuesResult ''issueBatchCreate'')]),
                           st2)))"
  using assms mapE_withProjectId[OF assms(2) assms(4), of issues]
  by (simp add: createProjectWithIssues_def createProject_def execute_def bindE_def getProp_def)

lemma createBatchIssues_state:
  "snd (createBatchIssues T issues st) =
     (fst st @ [(CREATE_BATCH_ISSUES, JObj [(''input'', JObj [(''issues'', JArr issues)])])],
      snd (T (snd st) CREATE_BATCH_ISSUES (JObj [(''input'', JObj [(''issues'', JArr issues)])])))"
  by (simp add: createBatchIssues_def execute_state)

text \<open>
  C2. \<open>createProjectWithIssues\<close>, the project step having returned a response whose
  \<open>projectCreate\<close> is an object. If its \<open>success\<close> is falsy, the composite throws
  \<open>Failed to create project\<close> and the project request is the only one sent. If it is
  truthy and carries the project with its id, every issue payload of the second request
  has \<open>projectId\<close> set to that id, the requests sent are the project request and one
  batch request and no other (nothing retracts the project), and when the batch response
  reports failure the composite throws \<open>Failed to create issues\<close>; when it reports
  success the composite returns both results.
\<close>

theorem createProjectWithIssues_steps:
  assumes req1: "req1 = JObj [(''input'', projectInput)]"
      and step1: "T w CREATE_PROJECT req1 = (Inr (JObj d1), w1)"
      and pc: "property d1 ''projectCreate'' = JObj pc"
      and payloads: "payloads = map (\<lambda>issue. JObj (AList.update ''projectId'' pid issue)) issues"
      and req2: "req2 = JObj [(''input'', JObj [(''issues'', JArr payloads)])]"
  shows "(\<not> truthy (property pc ''success'') \<longrightarrow>
            createProjectWithIssues T projectInput issues (log, w) =
              (Inl (Error ''Failed to create project''), (log @ [(CREATE_PROJECT, req1)], w1)))
     \<and> (truthy (property pc ''success'') \<and> property pc ''project'' = JObj p \<and> property p ''id'' = pid \<longrightarrow>
            list_all (\<lambda>payload. member payload ''projectId'' = pid) payloads
          \<and> snd (createProjectWithIssues T projectInput issues (log, w)) =
              (log @ [(CREATE_PROJECT, req1), (CREATE_BATCH_ISSUES, req2)],
               snd (T w1 CREATE_BATCH_ISSUES req2))
          \<and> (\<forall>d2 bc. fst (T w1 CREATE_BATCH_ISSUES req2) = Inr (JObj d2) \<and>
                  property d2 ''issueBatchCreate'' = JObj bc \<longrightarrow>
                fst (createProjectWithIssues T projectInput issues (log, w)) =
                  (if truthy (property bc ''success'')
                   then Inr (JObj [(''projectCreate'', JObj pc), (''issueBatchCreate'', JObj bc)])
                   else Inl (Error ''Failed to create issues''))))"
proof (intro conjI impI allI)
  assume "\<not> truthy (property pc ''success'')"
  then show "createProjectWithIssues T projectInput issues (log, w) =
              (Inl (Error ''Failed to create project''), (log @ [(CREATE_PROJECT, req1)], w1))"
    using project_step_failure[of T w projectInput d1 w1 pc issues log, OF step1[unfolded req1] pc]
    by (simp add: req1)
next
  assume a: "truthy (property pc ''success'') \<and> property pc ''project'' = JObj p \<and> property p ''id'' = pid"
  show "list_all (\<lambda>payload. member payload ''projectId'' = pid) payloads"
    unfolding payloads by (rule projectId_set)
  from a have s: "truthy (property pc ''success'')" and p: "property pc ''project'' = JObj p"
    and pid: "property p ''id'' = pid" by simp_all
  note run = project_step_success[of T w projectInput d1 w1 pc p issues log,
                 OF step1[unfolded req1] pc s p, unfolded pid, folded payloads]
  show "snd (createProjectWithIssues T projectInput issues (log, w)) =
              (log @ [(CREATE_PROJECT, req1), (CREATE_BATCH_ISSUES, req2)],
               snd (T w1 CREATE_BATCH_ISSUES req2))"
  proof -
    obtain r st2 where cb:
      "createBatchIssues T payloads (log @ [(CREATE_PROJECT, JObj [(''input'', projectInput)])], w1) = (r, st2)"
      by (cases "createBatchIssues T payloads (log @ [(CREATE_PROJECT, JObj [(''input'', projectInput)])], w1)")
    have "snd (createProjectWithIssues T projectInput issues (log, w)) = st2"
      by (cases r) (simp_all add: run cb split: sum.splits)
    moreover have "st2 = (log @ [(CREATE_PROJECT, req1), (CREATE_BATCH_ISSUES, req2)],
               snd (T w1 CREATE_BATCH_ISSUES req2))"
      using createBatchIssues_state[of T payloads "(log @ [(CREATE_PROJECT, req1)], w1)"] cb
      by (simp add: req1 req2)
    ultimately show ?thesis by simp
  qed
  fix d2 bc
  assume b: "fst (T w1 CREATE_BATCH_ISSUES req2) = Inr (JObj d2) \<and>
                  property d2 ''issueBatchCreate'' = JObj bc"
  then have "fst (createBatchIssues T payloads (log @ [(CREATE_PROJECT, JObj [(''input'', projectInput)])], w1))
               = Inr (JObj d2)"
    by (simp add: createBatchIssues_def execute_result req2)
  then obtain st2 where "createBatchIssues T payloads (log @ [(CREATE_PROJECT, JObj [(''input'', projectInput)])], w1)
               = (Inr (JObj d2), st2)"
    by (cases "createBatchIssues T payloads (log @ [(CREATE_PROJECT, JObj [(''input'', projectInput)])], w1)") auto
  then show "fst (createProjectWithIssues T projectInput issues (log, w)) =
                  (if truthy (property bc ''success'')
                   then Inr (JObj [(''projectCreate'', JObj pc), (''issueBatchCreate'', JObj bc)])
                   else Inl (Error ''Failed to create issues''))"
    using b pc by (simp add: run bindE_def getProp_def)
qed

theorem createProjectWithIssues_steps_witness:
  "createProjectWithIssues scripted (JObj [(''name'', JStr ''New Project'')])
      [[(''title'', JStr ''Project Issue 1''), (''teamId'', JStr ''team-1'')]]
      ([], [Inr (JObj [(''projectCreate'', JObj [(''success'', JBool False), (''project'', JNull)])])])
    = (Inl (Error ''Failed to create project''),
       ([(CREATE_PROJECT, JObj [(''input'', JObj [(''name'', JStr ''New Project'')])])], []))
   \<and> createProjectWithIssues scripted (JObj [(''name'', JStr ''New Project'')])
      [[(''title'', JStr ''Project Issue 1''), (''teamId'', JStr ''team-1'')]]
      ([], [Inr (JObj [(''projectCreate'', JObj [(''success'', JBool True),
                                                (''project'', JObj [(''id'', JStr ''project-1'')])])]),
            Inr (JObj [(''issueBatchCreate'', JObj [(''success'', JBool False), (''issues'', JArr [])])])])
    = (Inl (Error ''Failed to create issues''),
       ([(CREATE_PROJECT, JObj [(''input'', JObj [(''name'', JStr ''New Project'')])]),
         (CREATE_BATCH_ISSUES, JObj [(''input'', JObj [(''issues'',
            JArr [JObj [(''title'', JStr ''Project Issue 1''), (''teamId'', JStr ''team-1''),
                        (''projectId'', JStr ''project-1'')]])])])], []))"
proof -
  let ?input = "JObj [(''name'', JStr ''New Project'')]"
  let ?issues = "[[(''title'', JStr ''Project Issue 1''), (''teamId'', JStr ''team-1'')]]"
  let ?pcF = "[(''success'', JBool False), (''project'', JNull)]"
  let ?pcT = "[(''success'', JBool True), (''project'', JObj [(''id'', JStr ''project-1'')])]"
  let ?bad = "Inr (JObj [(''issueBatchCreate'', JObj [(''success'', JBool False), (''issues'', JArr [])])])"
  have f1: "scripted [Inr (JObj [(''projectCreate'', JObj ?pcF)])] CREATE_PROJECT (JObj [(''input'', ?input)])
              = (Inr (JObj [(''projectCreate'', JObj ?pcF)]), [])"
    by (simp add: scripted_def)
  have f2: "property [(''projectCreate'', JObj ?pcF)] ''projectCreate'' = JObj ?pcF"
    by (simp add: property_def)
  have s1: "scripted [Inr (JObj [(''projectCreate'', JObj ?pcT)]), ?bad] CREATE_PROJECT (JObj [(''input'', ?input)])
              = (Inr (JObj [(''projectCreate'', JObj ?pcT)]), [?bad])"
    by (simp add: scripted_def)
  have s2: "property [(''projectCreate'', JObj ?pcT)] ''projectCreate'' = JObj ?pcT"
    by (simp add: property_def)
  note failed = createProjectWithIssues_steps[where T = scripted and projectInput = ?input
                  and w = "[Inr (JObj [(''projectCreate'', JObj ?pcF)])]"
                  and issues = ?issues and log = "[]", OF refl f1 f2 refl refl]
  note passed = createProjectWithIssues_steps[where T = scripted and projectInput = ?input
                  and w = "[Inr (JObj [(''projectCreate'', JObj ?pcT)]), ?bad]"
                  and issues = ?issues and log = "[]" and pid = "JStr ''project-1''"
                  and p = "[(''id'', JStr ''project-1'')]", OF refl s1 s2 refl refl]
  have a: "createProjectWithIssues scripted ?input ?issues ([], [Inr (JObj [(''projectCreate'', JObj ?pcF)])])
    = (Inl (Error ''Failed to create project''),
       ([(CREATE_PROJECT, JObj [(''input'', ?input)])], []))"
    using failed by (simp add: property_def)
  have b: "createProjectWithIssues scripted ?input ?issues
             ([], [Inr (JObj [(''projectCreate'', JObj ?pcT)]), ?bad])
    = (Inl (Error ''Failed to create issues''),
       ([(CREATE_PROJECT, JObj [(''input'', ?input)]),
         (CREATE_BATCH_ISSUES, JObj [(''input'', JObj [(''issues'',
            JArr [JObj [(''title'', JStr ''Project Issue 1''), (''teamId'', JStr ''team-1''),
                        (''projectId'', JStr ''project-1'')]])])])], []))"
    using passed by (simp add: prod_eq_iff property_def scripted_def)
  show ?thesis using a b by blast
qed

section \<open>The variables bound by the client\<close>

lemma client_binds_declared:
  "boundVariables (snd (last (fst (snd (createIssue T input st))))) = declaredVariables CREATE_ISSUE_MUTATION"
  "boundVariables (snd (last (fst (snd (createProject T input st))))) = declaredVariables CREATE_PROJECT"
  "boundVariables (snd (last (fst (snd (createBatchIssues T issues st))))) = declaredVariables CREATE_BATCH_ISSUES"
  "boundVariables (snd (last (fst (snd (updateIssue T ident input st))))) = declaredVariables UPDATE_ISSUE_MUTATION"
  by (simp_all add: createIssue_def createProject_def createBatchIssues_def updateIssue_def
        execute_state boundVariables_def declaredVariables_def
        CREATE_ISSUE_MUTATION_def CREATE_PROJECT_def CREATE_BATCH_ISSUES_def UPDATE_ISSUE_MUTATION_def)

text \<open>
  C3 (the code at a failing input). \<open>updateIssues\<close> for two identifiers and one update
  payload sends \<open>UpdateIssues\<close> with the variables \<open>ids\<close> and \<open>input\<close>, while that
  mutation declares \<open>input\<close> alone: \<open>ids\<close> is bound without being declared.
\<close>

theorem updateIssues_binds_undeclared_ids:
  "fst (snd (updateIssues scripted (JArr [JStr ''issue-1'', JStr ''issue-2''])
               (JObj [(''stateId'', JStr ''state-2'')])
               ([], [Inr (JObj [(''issueBatchUpdate'', JObj [(''success'', JBool True)])])])))
     = [(UPDATE_ISSUES_MUTATION,
         JObj [(''ids'', JArr [JStr ''issue-1'', JStr ''issue-2'']),
               (''input'', JObj [(''stateId'', JStr ''state-2'')])])]
   \<and> boundVariables (JObj [(''ids'', JArr [JStr ''issue-1'', JStr ''issue-2'']),
                          (''input'', JObj [(''stateId'', JStr ''state-2'')])]) = [''ids'', ''input'']
   \<and> declaredVariables UPDATE_ISSUES_MUTATION = [''input'']
   \<and> ''ids'' \<notin> set (declaredVariables UPDATE_ISSUES_MUTATION)"
  by (simp add: updateIssues_def execute_state boundVariables_def declaredVariables_def
        UPDATE_ISSUES_MUTATION_def)

section \<open>The filter of \<open>handleSearchIssues\<close>\<close>

lemma takeWhile_prefix:
  "list_all P ls \<Longrightarrow> \<not> P c \<Longrightarrow> takeWhile P (ls @ c # r) = ls"
  by (induction ls) auto

lemma dropWhile_prefix:
  "list_all P ls \<Longrightarrow> \<not> P c \<Longrightarrow> dropWhile P (ls @ c # r) = c # r"
  by (induction ls) auto

lemma hyphen_not_upper: "\<not> isUpper (CHR ''-'')"
  by (simp add: isUpper_def)

lemma extractIssueNumber_pattern:
  assumes "identifier_pattern q ls ds"
  shows "extractIssueNumber q = Some (decimalValue ds)"
proof -
  from assms have q: "q = ls @ CHR ''-'' # ds" and ls: "ls \<noteq> []" "list_all isUpper ls"
    and ds: "ds \<noteq> []" "list_all isDigit ds"
    by (simp_all add: identifier_pattern_def)
  have t: "takeWhile isUpper q = ls" and d: "dropWhile isUpper q = CHR ''-'' # ds"
    unfolding q using ls(2) hyphen_not_upper by (simp_all add: takeWhile_prefix dropWhile_prefix)
  show ?thesis
    using ls ds parseInt_all_digits[OF ds] by (simp add: extractIssueNumber_def Let_def t d)
qed

lemma list_all_takeWhile: "list_all P (takeWhile P xs)"
  by (induction xs) auto

lemma extractIssueNumber_Some:
  assumes "extractIssueNumber q = Some n"
  shows "\<exists>ls ds. identifier_pattern q ls ds \<and> n = decimalValue ds"
proof -
  let ?ls = "takeWhile isUpper q" and ?rest = "dropWhile isUpper q"
  from assms have c: "?ls \<noteq> []" "?rest \<noteq> []" "hd ?rest = CHR ''-''" "tl ?rest \<noteq> []"
    "list_all isDigit (tl ?rest)" and n: "parseInt (tl ?rest) = Some n"
    by (simp_all add: extractIssueNumber_def Let_def split: if_splits)
  have r: "?rest = CHR ''-'' # tl ?rest" using c(2,3) by (cases ?rest) auto
  have "q = ?ls @ ?rest" by simp
  then have q: "q = ?ls @ ''-'' @ tl ?rest" using r by simp
  have "identifier_pattern q ?ls (tl ?rest)"
    unfolding identifier_pattern_def using q c list_all_takeWhile[of isUpper q] by blast
  moreover have "n = decimalValue (tl ?rest)"
    using n parseInt_all_digits[OF c(4) c(5)] by simp
  ultimately show ?thesis by blast
qed

lemma extractIssueNumber_None:
  "(\<nexists>ls ds. identifier_pattern q ls ds) \<Longrightarrow> extractIssueNumber q = None"
  using extractIssueNumber_Some[of q] by (cases "extractIssueNumber q") auto

lemma assembleFilter_falsy_query:
  assumes "\<not> truthy (property args ''query'')"
  shows "\<exists>f. assembleFilter args = Inr f"
  using assms by (simp add: assembleFilter_def bindE_def Let_def)

lemma keys_if_update:
  "fst ` set (if c then AList.update k v f else f) = (if c then {k} else {}) \<union> fst ` set f"
  by (simp add: keys_update)

lemma keys_case_update:
  "fst ` set (case j of JNum n \<Rightarrow> AList.update k (g n) f | _ \<Rightarrow> f) =
     (case j of JNum n \<Rightarrow> {k} | _ \<Rightarrow> {}) \<union> fst ` set f"
  by (cases j) (simp_all add: keys_update)

lemma assembleFilter_steps:
  assumes "assembleFilter args = Inr f"
  obtains f1 where
    "(if truthy (property args ''query'')
      then bindE (queryFilter (property args ''query'')) (\<lambda>disj. Inr (AList.update ''or'' disj []))
      else Inr []) = Inr f1"
    "f = (let f2 = (if truthy (projectEq args)
                then AList.update ''project'' (JObj [(''id'', JObj [(''eq'', projectEq args)])]) f1
                else f1);
          f3 = (if truthy (property args ''teamIds'')
                then AList.update ''team'' (JObj [(''id'', JObj [(''in'', property args ''teamIds'')])]) f2
                else f2);
          f4 = (if truthy (property args ''assigneeIds'')
                then AList.update ''assignee'' (JObj [(''id'', JObj [(''in'', property args ''assigneeIds'')])]) f3
                else f3);
          f5 = (if truthy (property args ''states'')
                then AList.update ''state'' (JObj [(''name'', JObj [(''in'', property args ''states'')])]) f4
                else f4);
          f6 = (case property args ''priority'' of
                  JNum n \<Rightarrow> AList.update ''priority'' (JObj [(''eq'', JNum n)]) f5
                | _ \<Rightarrow> f5)
      in f6)"
proof -
  obtain f1 where f1: "(if truthy (property args ''query'')
            then bindE (queryFilter (property args ''query'')) (\<lambda>disj. Inr (AList.update ''or'' disj []))
            else Inr []) = Inr f1"
    using assms by (auto simp: assembleFilter_def bindE_def split: sum.splits)
  show ?thesis
    using that[OF f1] assms unfolding assembleFilter_def f1
    by (simp only: bindE_def sum.case sum.inject)
qed

lemma assembleFilter_keys:
  assumes "assembleFilter args = Inr f"
  shows "fst ` set f =
           (case property args ''priority'' of JNum n \<Rightarrow> {''priority''} | _ \<Rightarrow> {})
         \<union> ((if truthy (property args ''states'') then {''state''} else {})
         \<union> ((if truthy (property args ''assigneeIds'') then {''assignee''} else {})
         \<union> ((if truthy (property args ''teamIds'') then {''team''} else {})
         \<union> ((if truthy (projectEq args) then {''project''} else {})
         \<union> (if truthy (property args ''query'') then {''or''} else {})))))"
proof -
  from assms obtain f1 where f1: "(if truthy (property args ''query'')
            then bindE (queryFilter (property args ''query'')) (\<lambda>disj. Inr (AList.update ''or'' disj []))
            else Inr []) = Inr f1"
    and f: "f = (let f2 = (if truthy (projectEq args)
                then AList.update ''project'' (JObj [(''id'', JObj [(''eq'', projectEq args)])]) f1
                else f1);
          f3 = (if truthy (property args ''teamIds'')
                then AList.update ''team'' (JObj [(''id'', JObj [(''in'', property args ''teamIds'')])]) f2
                else f2);
          f4 = (if truthy (property args ''assigneeIds'')
                then AList.update ''assignee'' (JObj [(''id'', JObj [(''in'', property args ''assigneeIds'')])]) f3
                else f3);
          f5 = (if truthy (property args ''states'')
                then AList.update ''state'' (JObj [(''name'', JObj [(''in'', property args ''states'')])]) f4
                else f4);
          f6 = (case property args ''priority'' of
                  JNum n \<Rightarrow> AList.update ''priority'' (JObj [(''eq'', JNum n)]) f5
                | _ \<Rightarrow> f5)
      in f6)"
    by (rule assembleFilter_steps)
  have k1: "fst ` set f1 = (if truthy (property args ''query'') then {''or''} else {})"
    using f1 by (auto simp: bindE_def split: if_splits sum.splits)
  show ?thesis
    unfolding f Let_def keys_case_update keys_if_update k1 ..
qed

lemma property_if_update_other:
  "k' \<noteq> k \<Longrightarrow> property (if c then AList.update k v f else f) k' = property f k'"
  by (simp add: property_update)

lemma property_case_update_other:
  "k' \<noteq> k \<Longrightarrow> property (case j of JNum n \<Rightarrow> AList.update k (g n) f | _ \<Rightarrow> f) k' = property f k'"
  by (cases j) (simp_all add: property_update)

lemma property_case_update_same:
  "property (case j of JNum n \<Rightarrow> AList.update k (g n) f | _ \<Rightarrow> f) k =
     (case j of JNum n \<Rightarrow> g n | _ \<Rightarrow> property f k)"
  by (cases j) (simp_all add: property_update)

lemma assembleFilter_or:
  assumes "assembleFilter args = Inr f" and "property args ''query'' = JStr q" and "q \<noteq> []"
  shows "property f ''or'' =
           JArr [JObj [(''title'', JObj [(''containsIgnoreCase'', JStr q)])],
                 JObj [(''number'', JObj [(''eq'',
                    (case extractIssueNumber q of None \<Rightarrow> JNull | Some n \<Rightarrow> JNum n))])]]"
proof -
  from assms(1) obtain f1 where f1: "(if truthy (property args ''query'')
            then bindE (queryFilter (property args ''query'')) (\<lambda>disj. Inr (AList.update ''or'' disj []))
            else Inr []) = Inr f1"
    and f: "f = (let f2 = (if truthy (projectEq args)
                then AList.update ''project'' (JObj [(''id'', JObj [(''eq'', projectEq args)])]) f1
                else f1);
          f3 = (if truthy (property args ''teamIds'')
                then AList.update ''team'' (JObj [(''id'', JObj [(''in'', property args ''teamIds'')])]) f2
                else f2);
          f4 = (if truthy (property args ''assigneeIds'')
                then AList.update ''assignee'' (JObj [(''id'', JObj [(''in'', property args ''assigneeIds'')])]) f3
                else f3);
          f5 = (if truthy (property args ''states'')
                then AList.update ''state'' (JObj [(''name'', JObj [(''in'', property args ''states'')])]) f4
                else f4);
          f6 = (case property args ''priority'' of
                  JNum n \<Rightarrow> AList.update ''priority'' (JObj [(''eq'', JNum n)]) f5
                | _ \<Rightarrow> f5)
      in f6)"
    by (rule assembleFilter_steps)
  have "property f ''or'' = property f1 ''or''"
    unfolding f Let_def
    by (simp add: property_case_update_other property_if_update_other)
  moreover have "f1 = AList.update ''or''
           (JArr [JObj [(''title'', JObj [(''containsIgnoreCase'', JStr q)])],
                 JObj [(''number'', JObj [(''eq'',
                    (case extractIssueNumber q of None \<Rightarrow> JNull | Some n \<Rightarrow> JNum n))])]]) []"
    using f1 assms(2,3) by (simp add: queryFilter_def bindE_def)
  ultimately show ?thesis by (simp add: property_def)
qed

lemma assembleFilter_string_query:
  assumes "property args ''query'' = JStr q"
  shows "\<exists>f. assembleFilter args = Inr f"
  using assms by (simp add: assembleFilter_def bindE_def queryFilter_def)

lemma assembleFilter_priority:
  assumes "assembleFilter args = Inr f" and "property args ''priority'' = JNum n"
  shows "property f ''priority'' = JObj [(''eq'', JNum n)]"
proof -
  from assms(1) obtain f1 where f: "f = (let f2 = (if truthy (projectEq args)
                then AList.update ''project'' (JObj [(''id'', JObj [(''eq'', projectEq args)])]) f1
                else f1);
          f3 = (if truthy (property args ''teamIds'')
                then AList.update ''team'' (JObj [(''id'', JObj [(''in'', property args ''teamIds'')])]) f2
                else f2);
          f4 = (if truthy (property args ''assigneeIds'')
                then AList.update ''assignee'' (JObj [(''id'', JObj [(''in'', property args ''assigneeIds'')])]) f3
                else f3);
          f5 = (if truthy (property args ''states'')
                then AList.update ''state'' (JObj [(''name'', JObj [(''in'', property args ''states'')])]) f4
                else f4);
          f6 = (case property args ''priority'' of
                  JNum n \<Rightarrow> AList.update ''priority'' (JObj [(''eq'', JNum n)]) f5
                | _ \<Rightarrow> f5)
      in f6)"
    by (rule assembleFilter_steps)
  show ?thesis
    unfolding f Let_def property_case_update_same by (simp add: assms(2))
qed

lemma withDefault_orElse: "d \<noteq> JUndefined \<Longrightarrow> withDefault (orElse a d) d = orElse a d"
  by (cases a) (auto simp: withDefault_def orElse_def)

lemma handleSearchIssues_state:
  assumes "assembleFilter args = Inr f"
  shows "snd (handleSearchIssues T Q True args st) =
          (fst st @ [(Q, JObj [(''filter'', JObj f),
                               (''first'', orElse (property args ''first'') (JNum 50)),
                               (''after'', property args ''after''),
                               (''orderBy'', orElse (property args ''orderBy'') (JStr ''updatedAt''))])],
           snd (T (snd st) Q (JObj [(''filter'', JObj f),
                               (''first'', orElse (property args ''first'') (JNum 50)),
                               (''after'', property args ''after''),
                               (''orderBy'', orElse (property args ''orderBy'') (JStr ''updatedAt''))])))"
proof -
  obtain r st' where ex: "searchIssues T Q (JObj f) (orElse (property args ''first'') (JNum 50))
            (property args ''after'') (orElse (property args ''orderBy'') (JStr ''updatedAt'')) st = (r, st')"
    by (cases "searchIssues T Q (JObj f) (orElse (property args ''first'') (JNum 50))
            (property args ''after'') (orElse (property args ''orderBy'') (JStr ''updatedAt'')) st")
  have "snd (handleSearchIssues T Q True args st) = st'"
    by (cases r) (simp_all add: handleSearchIssues_def verifyAuth_def bindE_def assms ex)
  moreover have "st' = snd (searchIssues T Q (JObj f) (orElse (property args ''first'') (JNum 50))
            (property args ''after'') (orElse (property args ''orderBy'') (JStr ''updatedAt'')) st)"
    by (simp add: ex)
  ultimately show ?thesis
    by (simp add: searchIssues_def execute_state withDefault_orElse)
qed

text \<open>
  C7 (as amended). For a non-empty query string \<open>q\<close> the filter is assembled without
  error and its \<open>or\<close> is a list of exactly two comparators: \<open>title containsIgnoreCase q\<close>
  and \<open>number eq v\<close>. When \<open>q\<close> is one or more capital letters A-Z, a hyphen and one or
  more digits, and the digits denote an integer of at most \<open>maxSafe\<close>, \<open>v\<close> is that
  integer (beyond \<open>maxSafe\<close> the code's \<open>parseInt\<close> gives the nearest number, about
  which nothing is stated); for every \<open>q\<close> not of that form \<open>v\<close> is \<open>null\<close>. That filter
  is the \<open>filter\<close> variable of the one request the handler sends.
\<close>

theorem search_query_disjunction:
  assumes query: "property args ''query'' = JStr q" and ne: "q \<noteq> []"
  shows "\<exists>f. assembleFilter args = Inr f
     \<and> (\<forall>ls ds. identifier_pattern q ls ds \<and> decimalValue ds \<le> maxSafe \<longrightarrow>
           property f ''or'' =
             JArr [JObj [(''title'', JObj [(''containsIgnoreCase'', JStr q)])],
                   JObj [(''number'', JObj [(''eq'', JNum (decimalValue ds))])]])
     \<and> ((\<nexists>ls ds. identifier_pattern q ls ds) \<longrightarrow>
           property f ''or'' =
             JArr [JObj [(''title'', JObj [(''containsIgnoreCase'', JStr q)])],
                   JObj [(''number'', JObj [(''eq'', JNull)])]])
     \<and> (\<exists>variables. fst (snd (handleSearchIssues T Q True args (log, w))) = log @ [(Q, JObj variables)]
           \<and> property variables ''filter'' = JObj f)"
proof -
  obtain f where f: "assembleFilter args = Inr f"
    using assembleFilter_string_query[OF query] by blast
  note disj = assembleFilter_or[OF f query ne]
  have a: "\<forall>ls ds. identifier_pattern q ls ds \<and> decimalValue ds \<le> maxSafe \<longrightarrow>
           property f ''or'' =
             JArr [JObj [(''title'', JObj [(''containsIgnoreCase'', JStr q)])],
                   JObj [(''number'', JObj [(''eq'', JNum (decimalValue ds))])]]"
    using disj by (auto simp: extractIssueNumber_pattern)
  have b: "(\<nexists>ls ds. identifier_pattern q ls ds) \<longrightarrow>
           property f ''or'' =
             JArr [JObj [(''title'', JObj [(''containsIgnoreCase'', JStr q)])],
                   JObj [(''number'', JObj [(''eq'', JNull)])]]"
    using disj extractIssueNumber_None[of q] by auto
  have c: "\<exists>variables. fst (snd (handleSearchIssues T Q True args (log, w))) = log @ [(Q, JObj variables)]
           \<and> property variables ''filter'' = JObj f"
    using handleSearchIssues_state[OF f, of T Q "(log, w)"] by (simp add: property_def)
  show ?thesis using f a b c by blast
qed

theorem search_query_disjunction_witness:
  "assembleFilter [(''query'', JStr ''ENG-42'')] =
     Inr [(''or'', JArr [JObj [(''title'', JObj [(''containsIgnoreCase'', JStr ''ENG-42'')])],
                         JObj [(''number'', JObj [(''eq'', JNum 42)])]])]
   \<and> assembleFilter [(''query'', JStr ''login bug'')] =
     Inr [(''or'', JArr [JObj [(''title'', JObj [(''containsIgnoreCase'', JStr ''login bug'')])],
                         JObj [(''number'', JObj [(''eq'', JNull)])]])]"
proof -
  have q1: "property [(''query'', JStr ''ENG-42'')] ''query'' = JStr ''ENG-42''" "''ENG-42'' \<noteq> []"
    and q2: "property [(''query'', JStr ''login bug'')] ''query'' = JStr ''login bug''" "''login bug'' \<noteq> []"
    by (simp_all add: property_def)
  note r1 = search_query_disjunction[OF q1]
  note r2 = search_query_disjunction[OF q2]
  have e: "extractIssueNumber ''ENG-42'' = Some 42" "extractIssueNumber ''login bug'' = None"
    by (simp_all add: extractIssueNumber_def isUpper_def evals)
  show ?thesis
    using r1 r2 e
    by (simp add: assembleFilter_def queryFilter_def bindE_def projectEq_def optProp_def property_def)
qed

text \<open>
  C7 (as stated) fails. \<open>eng-42\<close> is letters, a hyphen and digits, yet the operand of
  \<open>number eq\<close> is \<open>null\<close>, not 42; and for the query string \<open>''''\<close>, which is supplied,
  the filter has no \<open>or\<close> at all.
\<close>

theorem search_query_counterexample:
  "spec_identifier_pattern ''eng-42'' ''eng'' ''42''
   \<and> decimalValue ''42'' = 42
   \<and> assembleFilter [(''query'', JStr ''eng-42'')] =
       Inr [(''or'', JArr [JObj [(''title'', JObj [(''containsIgnoreCase'', JStr ''eng-42'')])],
                           JObj [(''number'', JObj [(''eq'', JNull)])]])]
   \<and> assembleFilter [(''query'', JStr [])] = Inr []"
proof -
  have e: "extractIssueNumber ''eng-42'' = None"
    by (simp add: extractIssueNumber_def isUpper_def evals)
  show ?thesis
    by (simp add: spec_identifier_pattern_def isLetter_def isDigit_def decimalValue_def digitValue_def e
          assembleFilter_def queryFilter_def bindE_def projectEq_def optProp_def property_def)
qed

lemma truthy_supplied: "truthy v \<Longrightarrow> v \<noteq> JUndefined"
  by auto

text \<open>
  C8. Whenever \<open>handleSearchIssues\<close> assembles a filter, its keys are among \<open>or\<close>,
  \<open>project\<close>, \<open>team\<close>, \<open>assignee\<close>, \<open>state\<close> and \<open>priority\<close>; each of the first five is
  there exactly when its argument is truthy, hence only when it was supplied; and
  \<open>priority\<close> is there exactly when the \<open>priority\<close> argument is a number, with the
  comparator \<open>eq\<close> of that number, 0 included.
\<close>

theorem filter_keys_only_supplied:
  assumes "assembleFilter args = Inr f"
  shows "fst ` set f \<subseteq> {''or'', ''project'', ''team'', ''assignee'', ''state'', ''priority''}
     \<and> (''or'' \<in> fst ` set f \<longleftrightarrow> truthy (property args ''query''))
     \<and> (''project'' \<in> fst ` set f \<longleftrightarrow> truthy (projectEq args))
     \<and> (''team'' \<in> fst ` set f \<longleftrightarrow> truthy (property args ''teamIds''))
     \<and> (''assignee'' \<in> fst ` set f \<longleftrightarrow> truthy (property args ''assigneeIds''))
     \<and> (''state'' \<in> fst ` set f \<longleftrightarrow> truthy (property args ''states''))
     \<and> (''priority'' \<in> fst ` set f \<longleftrightarrow> (\<exists>n. property args ''priority'' = JNum n))
     \<and> (''or'' \<in> fst ` set f \<longrightarrow> property args ''query'' \<noteq> JUndefined)
     \<and> (''project'' \<in> fst ` set f \<longrightarrow> property args ''filter'' \<noteq> JUndefined)
     \<and> (''team'' \<in> fst ` set f \<longrightarrow> property args ''teamIds'' \<noteq> JUndefined)
     \<and> (''assignee'' \<in> fst ` set f \<longrightarrow> property args ''assigneeIds'' \<noteq> JUndefined)
     \<and> (''state'' \<in> fst ` set f \<longrightarrow> property args ''states'' \<noteq> JUndefined)
     \<and> (''priority'' \<in> fst ` set f \<longrightarrow> property args ''priority'' \<noteq> JUndefined)
     \<and> (\<forall>n. property args ''priority'' = JNum n \<longrightarrow> property f ''priority'' = JObj [(''eq'', JNum n)])"
proof -
  note k = assembleFilter_keys[OF assms]
  have pr: "(case property args ''priority'' of JNum n \<Rightarrow> {''priority''} | _ \<Rightarrow> {}) =
              (if \<exists>n. property args ''priority'' = JNum n then {''priority''} else {})"
    by (cases "property args ''priority''") simp_all
  have sub: "fst ` set f \<subseteq> {''or'', ''project'', ''team'', ''assignee'', ''state'', ''priority''}"
    unfolding k pr by (intro Un_least) simp_all
  have k1: "''or'' \<in> fst ` set f \<longleftrightarrow> truthy (property args ''query'')"
    unfolding k pr by simp
  have k2: "''project'' \<in> fst ` set f \<longleftrightarrow> truthy (projectEq args)"
    unfolding k pr by simp
  have k3: "''team'' \<in> fst ` set f \<longleftrightarrow> truthy (property args ''teamIds'')"
    unfolding k pr by simp
  have k4: "''assignee'' \<in> fst ` set f \<longleftrightarrow> truthy (property args ''assigneeIds'')"
    unfolding k pr by simp
  have k5: "''state'' \<in> fst ` set f \<longleftrightarrow> truthy (property args ''states'')"
    unfolding k pr by simp
  have k6: "''priority'' \<in> fst ` set f \<longleftrightarrow> (\<exists>n. property args ''priority'' = JNum n)"
    unfolding k pr by simp
  have s1: "''or'' \<in> fst ` set f \<longrightarrow> property args ''query'' \<noteq> JUndefined"
    unfolding k1 using truthy_supplied by blast
  have s2: "''project'' \<in> fst ` set f \<longrightarrow> property args ''filter'' \<noteq> JUndefined"
    unfolding k2 by (auto simp: projectEq_def optProp_def)
  have s3: "''team'' \<in> fst ` set f \<longrightarrow> property args ''teamIds'' \<noteq> JUndefined"
    unfolding k3 using truthy_supplied by blast
  have s4: "''assignee'' \<in> fst ` set f \<longrightarrow> property args ''assigneeIds'' \<noteq> JUndefined"
    unfolding k4 using truthy_supplied by blast
  have s5: "''state'' \<in> fst ` set f \<longrightarrow> property args ''states'' \<noteq> JUndefined"
    unfolding k5 using truthy_supplied by blast
  have s6: "''priority'' \<in> fst ` set f \<longrightarrow> property args ''priority'' \<noteq> JUndefined"
    unfolding k6 by auto
  have v: "\<forall>n. property args ''priority'' = JNum n \<longrightarrow> property f ''priority'' = JObj [(''eq'', JNum n)]"
    using assembleFilter_priority[OF assms] by blast
  show ?thesis
    by (intro conjI) (fact sub k1 k2 k3 k4 k5 k6 s1 s2 s3 s4 s5 s6 v)+
qed

theorem filter_keys_only_supplied_witness:
  "assembleFilter [(''priority'', JNum 0)] = Inr [(''priority'', JObj [(''eq'', JNum 0)])]
   \<and> assembleFilter [(''priority'', JStr ''2''), (''teamIds'', JArr [JStr ''team-1''])] =
       Inr [(''team'', JObj [(''id'', JObj [(''in'', JArr [JStr ''team-1''])])])]"
proof -
  have a: "assembleFilter [(''priority'', JNum 0)] = Inr [(''priority'', JObj [(''eq'', JNum 0)])]"
    by (simp add: assembleFilter_def bindE_def projectEq_def optProp_def property_def)
  have b: "assembleFilter [(''priority'', JStr ''2''), (''teamIds'', JArr [JStr ''team-1''])] =
       Inr [(''team'', JObj [(''id'', JObj [(''in'', JArr [JStr ''team-1''])])])]"
    by (simp add: assembleFilter_def bindE_def projectEq_def optProp_def property_def)
  show ?thesis
    using filter_keys_only_supplied[OF a] filter_keys_only_supplied[OF b] a b by simp
qed

lemma assembleFilter_empty_query:
  assumes "property args ''query'' = JStr []"
  shows "assembleFilter args = assembleFilter (AList.delete ''query'' args)"
proof -
  have p: "property (AList.delete ''query'' args) ''query'' = JUndefined"
    "property (AList.delete ''query'' args) ''filter'' = property args ''filter''"
    "property (AList.delete ''query'' args) ''teamIds'' = property args ''teamIds''"
    "property (AList.delete ''query'' args) ''assigneeIds'' = property args ''assigneeIds''"
    "property (AList.delete ''query'' args) ''states'' = property args ''states''"
    "property (AList.delete ''query'' args) ''priority'' = property args ''priority''"
    by (simp_all add: property_delete)
  show ?thesis
    unfolding assembleFilter_def projectEq_def p assms by simp
qed

text \<open>
  C10. With the query given as the empty string the assembled filter has no \<open>or\<close>, the
  filter is the one assembled for the same arguments without \<open>query\<close>, and the whole
  handler behaves as it does for those arguments.
\<close>

theorem empty_query_is_absent:
  assumes "property args ''query'' = JStr []"
  shows "(\<exists>f. assembleFilter args = Inr f \<and> ''or'' \<notin> fst ` set f)
     \<and> assembleFilter args = assembleFilter (AList.delete ''query'' args)
     \<and> handleSearchIssues T Q authed args st = handleSearchIssues T Q authed (AList.delete ''query'' args) st"
proof -
  have falsy: "\<not> truthy (property args ''query'')" using assms by simp
  obtain f where f: "assembleFilter args = Inr f"
    using assembleFilter_falsy_query[OF falsy] by blast
  have "''or'' \<notin> fst ` set f"
    unfolding assembleFilter_keys[OF f] using falsy by (simp split: json.splits)
  moreover have "handleSearchIssues T Q authed args st =
                   handleSearchIssues T Q authed (AList.delete ''query'' args) st"
  proof -
    have p: "property (AList.delete ''query'' args) ''first'' = property args ''first''"
      "property (AList.delete ''query'' args) ''after'' = property args ''after''"
      "property (AList.delete ''query'' args) ''orderBy'' = property args ''orderBy''"
      by (simp_all add: property_delete)
    show ?thesis
      unfolding handleSearchIssues_def p assembleFilter_empty_query[OF assms, symmetric] ..
  qed
  ultimately show ?thesis using f assembleFilter_empty_query[OF assms] by blast
qed

theorem empty_query_is_absent_witness:
  "assembleFilter [(''query'', JStr []), (''states'', JArr [JStr ''Todo''])] =
     Inr [(''state'', JObj [(''name'', JObj [(''in'', JArr [JStr ''Todo''])])])]
   \<and> assembleFilter [(''query'', JStr []), (''states'', JArr [JStr ''Todo''])] =
       assembleFilter [(''states'', JArr [JStr ''Todo''])]"
proof -
  have q: "property [(''query'', JStr []), (''states'', JArr [JStr ''Todo''])] ''query'' = JStr []"
    by (simp add: property_def)
  show ?thesis
    using empty_query_is_absent[OF q]
    by (simp add: assembleFilter_def bindE_def projectEq_def optProp_def property_def)
qed

end
